theory Spec2Isabelle
  imports Main
begin

section \<open>JavaScript values as the server uses them\<close>

text \<open>
  The server is one TypeScript module, \<^verbatim>\<open>src/index.ts\<close>. It registers 55 tools; each
  handler builds an argument list for the \<^verbatim>\<open>jj\<close> program and passes it to
  \<^verbatim>\<open>runJJCommand\<close>, which runs the program and turns its outcome into a text.

  A JavaScript string is a sequence of UTF-16 code units. The model is \<^typ>\<open>string\<close>, a
  list of \<^typ>\<open>char\<close>, each \<^typ>\<open>char\<close> standing for the code unit of the same number, so
  the strings of the model are those whose code units lie below 256 (ASCII and Latin-1).
\<close>

subsection \<open>\<^verbatim>\<open>String.prototype.trim\<close>\<close>

text \<open>
  \<^verbatim>\<open>trim\<close> removes the white space and line terminator code units from both ends of a
  string. Below 256 these are TAB, LF, VT, FF, CR, SPACE and NO-BREAK SPACE; the others
  (U+1680, U+2000 to U+200A, U+2028, U+2029, U+202F, U+205F, U+3000, U+FEFF) are not
  values of \<^typ>\<open>char\<close>.
\<close>

definition is_white_space :: "char \<Rightarrow> bool" where
  "is_white_space c \<longleftrightarrow> of_char c \<in> {9, 10, 11, 12, 13, 32, 160 :: nat}"

definition trimStart :: "string \<Rightarrow> string" where
  "trimStart s = dropWhile is_white_space s"

definition trimEnd :: "string \<Rightarrow> string" where
  "trimEnd s = rev (dropWhile is_white_space (rev s))"

definition trim :: "string \<Rightarrow> string" where
  "trim s = trimEnd (trimStart s)"

subsection \<open>\<^verbatim>\<open>Number.prototype.toString\<close> on integers\<close>

text \<open>
  The numeric parameters are validated as integers (\<^verbatim>\<open>z.number().int()\<close>). A JavaScript
  number is a double, so such a parameter is an integer that a double represents exactly;
  it is modelled by \<^typ>\<open>int\<close>. Every integer of magnitude below \<open>2\<^sup>5\<^sup>3\<close> is such a
  number, and \<^verbatim>\<open>toString\<close> prints it in decimal. From \<open>2\<^sup>5\<^sup>3\<close> on, \<^verbatim>\<open>toString\<close> prints
  the shortest digits \<open>s\<close> for which \<open>s \<times> 10\<^sup>e\<close> still rounds to the number (the nearest
  such \<open>s\<close> when there are two), followed by \<open>e\<close> zeros when that gives at most 21 digits,
  and in exponent notation otherwise: \<open>2\<^sup>6\<^sup>5\<close> is printed \<^verbatim>\<open>36893488147419103000\<close> and
  \<open>10\<^sup>2\<^sup>1\<close> is printed \<^verbatim>\<open>1e+21\<close>. (An \<^typ>\<open>int\<close> that no double represents, or that lies
  beyond the largest double, is not a JavaScript number and not an input of the code.)
\<close>

fun digits :: "nat \<Rightarrow> string" where
  "digits n =
     (if n < 10 then [''0123456789'' ! n]
      else digits (n div 10) @ [''0123456789'' ! (n mod 10)])"

text \<open>The number of binary digits of a natural number.\<close>

fun width :: "nat \<Rightarrow> nat" where
  "width n = (if n = 0 then 0 else Suc (width (n div 2)))"

declare digits.simps [simp del] width.simps [simp del]

text \<open>
  The double nearest to a natural number: 53 significant binary digits, a tie going to
  the even significand.
\<close>

definition number_value :: "nat \<Rightarrow> nat" where
  "number_value v =
     (if v < 2 ^ 53 then v
      else let u = 2 ^ (width v - 53); q = v div u; r = v mod u
           in if 2 * r < u \<or> (2 * r = u \<and> even q) then q * u else (q + 1) * u)"

text \<open>
  The digits \<open>s\<close> of length \<open>k\<close> and the exponent \<open>e\<close> with which \<open>s \<times> 10\<^sup>e\<close> rounds to
  \<open>x\<close>, if there are any: \<open>s\<close> is \<open>x\<close> cut after \<open>k\<close> digits or the next number up, the
  nearer of the two when both round to \<open>x\<close>, the even one when they are equally near.
\<close>

definition candidate :: "nat \<Rightarrow> nat \<Rightarrow> (nat \<times> nat) option" where
  "candidate x k =
     (let e = length (digits x) - k;
          low = x div 10 ^ e;
          high = low + 1;
          low_fits = (number_value (low * 10 ^ e) = x);
          high_fits = (number_value (high * 10 ^ e) = x);
          low_error = x - low * 10 ^ e;
          high_error = high * 10 ^ e - x
      in if low_fits \<and> (\<not> high_fits \<or> low_error < high_error \<or> (low_error = high_error \<and> even low))
         then Some (low, e)
         else if high_fits then Some (high, e)
         else None)"

text \<open>The candidate of the least length.\<close>

definition shortest :: "nat \<Rightarrow> (nat \<times> nat) option" where
  "shortest x =
     (case List.map_filter (candidate x) [1..<Suc (length (digits x))] of
        [] \<Rightarrow> None
      | c # _ \<Rightarrow> Some c)"

text \<open>
  Exponent notation for a number of \<open>n\<close> digits that starts with the digits \<open>ds\<close>: the
  first digit, the others without their trailing zeros after a point, and the exponent
  \<open>n - 1\<close>.
\<close>

definition exponential :: "string \<Rightarrow> nat \<Rightarrow> string" where
  "exponential ds n =
     (let fraction = rev (dropWhile (\<lambda>c. c = CHR ''0'') (rev (tl ds)))
      in take 1 ds @ (if fraction = [] then [] else CHR ''.'' # fraction) @ ''e+'' @ digits (n - 1))"

definition number_string :: "nat \<Rightarrow> string" where
  "number_string x =
     (if x < 2 ^ 53 then digits x
      else case shortest x of
        None \<Rightarrow> digits x
      | Some (s, e) \<Rightarrow>
          if length (digits s) + e \<le> 21 then digits s @ replicate e (CHR ''0'')
          else exponential (digits s) (length (digits s) + e))"

definition toString :: "int \<Rightarrow> string" where
  "toString k = (if k < 0 then CHR ''-'' # number_string (nat (- k)) else number_string (nat k))"

subsection \<open>Truthiness and the conditional pushes\<close>

text \<open>
  An optional parameter is \<^verbatim>\<open>undefined\<close> (\<^const>\<open>None\<close>) or a value of its type.
  \<^verbatim>\<open>if (x)\<close> tests the truthiness of \<^verbatim>\<open>x\<close>: \<^verbatim>\<open>undefined\<close>, the empty string,
  \<^verbatim>\<open>false\<close> and \<^verbatim>\<open>0\<close> are falsy, every array is truthy. Each function below is one
  form of guard of the handlers; it returns the value the guarded statement sees, or
  \<^const>\<open>None\<close> when the guard fails.
\<close>

definition truthy_string :: "string option \<Rightarrow> string option" where
  "truthy_string x = (case x of None \<Rightarrow> None | Some s \<Rightarrow> if s = [] then None else Some s)"

definition truthy_boolean :: "bool option \<Rightarrow> bool" where
  "truthy_boolean x \<longleftrightarrow> x = Some True"

definition truthy_number :: "int option \<Rightarrow> int option" where
  "truthy_number x = (case x of None \<Rightarrow> None | Some k \<Rightarrow> if k = 0 then None else Some k)"

text \<open>
  The statements \<^verbatim>\<open>if (x) { args.push(...) }\<close> of the handlers, as the tokens they
  append to \<^verbatim>\<open>args\<close>: \<open>push\<close> is given the value of \<^verbatim>\<open>x\<close> and returns the pushed
  tokens.
\<close>

definition if_string :: "string option \<Rightarrow> (string \<Rightarrow> string list) \<Rightarrow> string list" where
  "if_string x push = (case truthy_string x of None \<Rightarrow> [] | Some s \<Rightarrow> push s)"

definition if_boolean :: "bool option \<Rightarrow> string list \<Rightarrow> string list" where
  "if_boolean x pushed = (if truthy_boolean x then pushed else [])"

definition if_number :: "int option \<Rightarrow> (int \<Rightarrow> string list) \<Rightarrow> string list" where
  "if_number x push = (case truthy_number x of None \<Rightarrow> [] | Some k \<Rightarrow> push k)"

definition if_array :: "string list option \<Rightarrow> (string list \<Rightarrow> string list) \<Rightarrow> string list" where
  "if_array x push = (case x of None \<Rightarrow> [] | Some xs \<Rightarrow> push xs)"

text \<open>\<^verbatim>\<open>if (x !== undefined) { args.push(...) }\<close>: the test is presence, so \<open>0\<close> passes.\<close>

definition if_defined :: "int option \<Rightarrow> (int \<Rightarrow> string list) \<Rightarrow> string list" where
  "if_defined x push = (case x of None \<Rightarrow> [] | Some k \<Rightarrow> push k)"

section \<open>The subprocess invoker\<close>

text \<open>
  \<^verbatim>\<open>execFileAsync\<close> is Node's \<^verbatim>\<open>child_process.execFile\<close>, promisified. It is outside the
  repository, so the model takes it as a parameter: a function from the program name, the
  argument list and the \<^verbatim>\<open>cwd\<close> option to the outcome of the awaited promise. The code
  passes no option but \<^verbatim>\<open>cwd\<close>, so \<^verbatim>\<open>execFile\<close> captures the two output streams as
  strings and allows each \<^verbatim>\<open>maxBuffer\<close> bytes, 1 MiB by default. The promise resolves
  with the captured output when the child exits with status zero and neither stream went
  beyond \<^verbatim>\<open>maxBuffer\<close>. It rejects with an error object otherwise: on a non-zero exit, a
  termination by a signal, a failure to spawn, and also when a stream went beyond
  \<^verbatim>\<open>maxBuffer\<close>, whatever the exit status; the captured text of that stream is then cut
  at \<^verbatim>\<open>maxBuffer\<close>. A call that throws before a child exists is caught by the same
  \<^verbatim>\<open>try\<close> statement and is an outcome \<^const>\<open>Inl\<close> as well. Of the error object the
  code reads \<^verbatim>\<open>stderr\<close>, the captured standard error, absent (\<^const>\<open>None\<close>) when the
  call failed before a child existed, and \<^verbatim>\<open>message\<close>; the fields are named
  \<open>error_stderr\<close> and \<open>error_message\<close> after the expressions \<^verbatim>\<open>error.stderr\<close> and
  \<^verbatim>\<open>error.message\<close> of the source.
\<close>

record exec_output =
  stdout :: string
  output_stderr :: string

record exec_error =
  error_stderr :: "string option"
  error_message :: string

type_synonym exec_file = "string \<Rightarrow> string list \<Rightarrow> string option \<Rightarrow> exec_error + exec_output"

definition JJ_COMMAND :: string where
  "JJ_COMMAND = ''jj''"

text \<open>
  \<^verbatim>\<open>try { body } catch (error) { handler }\<close>: a computation is a value of a sum type,
  \<^const>\<open>Inl\<close> for a raised error. The handler runs on what the body raises, and what the
  handler raises leaves the statement.
\<close>

definition try_catch :: "'e + 'a \<Rightarrow> ('e \<Rightarrow> 'e + 'a) \<Rightarrow> 'e + 'a" where
  "try_catch body handler = (case body of Inl error \<Rightarrow> handler error | Inr v \<Rightarrow> Inr v)"

definition runJJCommand :: "exec_file \<Rightarrow> string list \<Rightarrow> string option \<Rightarrow> exec_error + string" where
  "runJJCommand execFileAsync args cwd =
     try_catch
       (case execFileAsync JJ_COMMAND args cwd of
          Inl error \<Rightarrow> Inl error
        | Inr output \<Rightarrow> Inr (trim (stdout output)))
       (\<lambda>error.
          case truthy_string (error_stderr error) of
            Some s \<Rightarrow> Inr (''Error: '' @ trim s)
          | None \<Rightarrow> Inr (''Error: '' @ error_message error))"

subsection \<open>Example outcomes of the subprocess\<close>

text \<open>
  Behaviours of \<^verbatim>\<open>execFileAsync\<close> used below as concrete inputs.
  \<^item> \<open>exec_succeeds\<close>: \<^verbatim>\<open>jj\<close> exits with status zero after printing a status report.
  \<^item> \<open>exec_fails\<close>: \<^verbatim>\<open>jj\<close> exits with a non-zero status after printing a diagnostic,
    indented and ended by a line break, on its standard error.
  \<^item> \<open>exec_cannot_spawn\<close>: \<^verbatim>\<open>jj\<close> is not installed, so no child is spawned and both
    captured streams are empty.
  \<^item> \<open>exec_fails_blank\<close>: \<^verbatim>\<open>jj\<close> exits with a non-zero status after printing only a line
    break on its standard error.
  \<^item> \<open>exec_exceeds_stdout\<close>: \<^verbatim>\<open>jj\<close> exits with status zero after printing \<open>long_text\<close>,
    one character more than \<^verbatim>\<open>maxBuffer\<close>, on its standard output and nothing on its
    standard error; the promise rejects.
  \<^item> \<open>exec_exceeds_stderr\<close>: \<^verbatim>\<open>jj\<close> exits with a non-zero status after printing
    \<open>long_text\<close> on its standard error; the promise rejects, and the error carries the
    first \<^verbatim>\<open>maxBuffer\<close> characters of it.
\<close>

definition maxBuffer :: nat where
  "maxBuffer = 1024 * 1024"

definition long_text :: string where
  "long_text = replicate (Suc maxBuffer) (CHR ''x'')"

definition exec_succeeds :: exec_file where
  "exec_succeeds program args cwd =
     Inr \<lparr>stdout = ''\<newline>Working copy  (@) : abc  (empty)\<newline>\<newline>'', output_stderr = []\<rparr>"

definition exec_fails :: exec_file where
  "exec_fails program args cwd =
     Inl \<lparr>error_stderr = Some ''  Error: No such revision\<newline>'',
          error_message = ''Command failed: jj show -r nope\<newline>  Error: No such revision\<newline>''\<rparr>"

definition exec_cannot_spawn :: exec_file where
  "exec_cannot_spawn program args cwd =
     Inl \<lparr>error_stderr = Some [], error_message = ''spawn jj ENOENT''\<rparr>"

definition exec_fails_blank :: exec_file where
  "exec_fails_blank program args cwd =
     Inl \<lparr>error_stderr = Some ''\<newline>'',
          error_message = ''Command failed: jj status\<newline>\<newline>''\<rparr>"

definition exec_exceeds_stdout :: exec_file where
  "exec_exceeds_stdout program args cwd =
     Inl \<lparr>error_stderr = Some [], error_message = ''stdout maxBuffer length exceeded''\<rparr>"

definition exec_exceeds_stderr :: exec_file where
  "exec_exceeds_stderr program args cwd =
     Inl \<lparr>error_stderr = Some (take maxBuffer long_text),
          error_message = ''stderr maxBuffer length exceeded''\<rparr>"

section \<open>The tools\<close>

subsection \<open>Validated parameters\<close>

text \<open>
  A handler receives the parameter object after validation against the tool's schema.
  \<^verbatim>\<open>z.string()\<close> is a \<^typ>\<open>string\<close>, \<^verbatim>\<open>z.array(z.string())\<close> a \<^typ>\<open>string list\<close>,
  \<^verbatim>\<open>.optional()\<close> an \<^typ>\<open>'a option\<close>, \<^verbatim>\<open>z.enum(["x", "n"])\<close> the type below. One
  constructor per tool, named after the tool, takes the parameters in the order in which
  the handler destructures them.
\<close>

datatype chmod_mode = Mode_x | Mode_n

fun mode_string :: "chmod_mode \<Rightarrow> string" where
  "mode_string Mode_x = ''x''"
| "mode_string Mode_n = ''n''"

datatype tool_call =
    Status "string option" "string option"
        \<comment> \<open>repoPath, cwd\<close>
  | Rebase string string "string option" "string option"
        \<comment> \<open>source, destination, repoPath, cwd\<close>
  | Commit string "string option" "string option"
        \<comment> \<open>message, repoPath, cwd\<close>
  | New "string option" "string option" "string option"
        \<comment> \<open>parents, repoPath, cwd\<close>
  | Abandon string "string option" "string option"
        \<comment> \<open>revisions, repoPath, cwd\<close>
  | Log "string option" "string option" "int option"
        \<comment> \<open>repoPath, cwd, limit\<close>
  | Bookmark_create string "string option" "string option" "string option"
        \<comment> \<open>name, revision, repoPath, cwd\<close>
  | Bookmark_delete "string list" "string option" "string option"
        \<comment> \<open>names, repoPath, cwd\<close>
  | Bookmark_forget "string list" "string option" "string option"
        \<comment> \<open>names, repoPath, cwd\<close>
  | Bookmark_list "string option" "string option" "string option"
        \<comment> \<open>repoPath, cwd, template\<close>
  | Bookmark_move "string list" string "string option" "string option"
        \<comment> \<open>names, revision, repoPath, cwd\<close>
  | Bookmark_rename string string "string option" "string option"
        \<comment> \<open>oldName, newName, repoPath, cwd\<close>
  | Bookmark_set string string "string option" "string option"
        \<comment> \<open>name, revision, repoPath, cwd\<close>
  | Bookmark_track string "string option" "string option"
        \<comment> \<open>remoteBookmark, repoPath, cwd\<close>
  | Bookmark_untrack string "string option" "string option"
        \<comment> \<open>remoteBookmark, repoPath, cwd\<close>
  | Diff "string option" "string option" "string option" "string option" "int option" "bool option"
        \<comment> \<open>from, to, repoPath, cwd, context, stat\<close>
  | Git_clone string "string option" "string option" "bool option" "int option"
        \<comment> \<open>source, destination, remoteName, colocate, depth\<close>
  | Git_export "string option" "string option"
        \<comment> \<open>repoPath, cwd\<close>
  | Git_fetch "string option" "string option" "string option" "string list option"
        \<comment> \<open>remote, repoPath, cwd, branches\<close>
  | Git_import "string option" "string option"
        \<comment> \<open>repoPath, cwd\<close>
  | Init "string option" "bool option" "string option"
        \<comment> \<open>destination, colocate, gitRepo\<close>
  | Git_push "string option" "string list option" "bool option" "bool option" "bool option" "bool option" "string option" "string option"
        \<comment> \<open>remote, bookmarks, all, tracked, deleted, allowNew, repoPath, cwd\<close>
  | Git_remote_add string string "string option" "string option"
        \<comment> \<open>name, url, repoPath, cwd\<close>
  | Git_remote_list "string option" "string option"
        \<comment> \<open>repoPath, cwd\<close>
  | Git_remote_remove string "string option" "string option"
        \<comment> \<open>name, repoPath, cwd\<close>
  | Git_remote_rename string string "string option" "string option"
        \<comment> \<open>oldName, newName, repoPath, cwd\<close>
  | Git_remote_set_url string string "string option" "string option"
        \<comment> \<open>name, url, repoPath, cwd\<close>
  | Git_root "string option" "string option"
        \<comment> \<open>repoPath, cwd\<close>
  | Show "string option" "string option" "string option" "int option"
        \<comment> \<open>revision, repoPath, cwd, context\<close>
  | Revert "string list" "string option" "string option" "string option"
        \<comment> \<open>revisions, destination, repoPath, cwd\<close>
  | Restore "string option" "string option" "string list" "string option" "string option"
        \<comment> \<open>source, destination, paths, repoPath, cwd\<close>
  | Interdiff string string "string option" "string option" "int option"
        \<comment> \<open>from, to, repoPath, cwd, context\<close>
  | Evolog "string option" "string option" "string option" "int option" "bool option"
        \<comment> \<open>revision, repoPath, cwd, limit, patch\<close>
  | Edit string "string option" "string option"
        \<comment> \<open>revision, repoPath, cwd\<close>
  | File_annotate string "string option" "string option" "string option"
        \<comment> \<open>path, revision, repoPath, cwd\<close>
  | File_chmod chmod_mode "string list" "string option" "string option" "string option"
        \<comment> \<open>mode, paths, revision, repoPath, cwd\<close>
  | File_list "string option" "string list option" "string option" "string option"
        \<comment> \<open>revision, paths, repoPath, cwd\<close>
  | File_show "string list" "string option" "string option" "string option"
        \<comment> \<open>paths, revision, repoPath, cwd\<close>
  | File_track "string list" "string option" "string option"
        \<comment> \<open>paths, repoPath, cwd\<close>
  | File_untrack "string list" "string option" "string option"
        \<comment> \<open>paths, repoPath, cwd\<close>
  | Squash "string option" "string option" "string list option" "bool option" "string option" "string option"
        \<comment> \<open>source, destination, paths, keepEmptied, repoPath, cwd\<close>
  | Workspace_root "string option" "string option"
        \<comment> \<open>repoPath, cwd\<close>
  | Operation_abandon string "string option" "string option"
        \<comment> \<open>operation, repoPath, cwd\<close>
  | Operation_diff "string option" "string option" "string option" "string option" "int option"
        \<comment> \<open>from, to, repoPath, cwd, context\<close>
  | Operation_log "int option" "string option" "string option"
        \<comment> \<open>limit, repoPath, cwd\<close>
  | Operation_restore string "string option" "string option"
        \<comment> \<open>operation, repoPath, cwd\<close>
  | Operation_show "string option" "string option" "string option"
        \<comment> \<open>operation, repoPath, cwd\<close>
  | Operation_undo "string option" "string option" "string option"
        \<comment> \<open>operation, repoPath, cwd\<close>
  | Config_get string "string option" "string option"
        \<comment> \<open>name, repoPath, cwd\<close>
  | Config_list "string option" "bool option" "bool option" "bool option" "bool option" "string option" "string option"
        \<comment> \<open>name, includeDefaults, includeOverridden, user, repo, repoPath, cwd\<close>
  | Config_set string string "bool option" "bool option" "string option" "string option"
        \<comment> \<open>name, value, user, repo, repoPath, cwd\<close>
  | Config_unset string "bool option" "bool option" "string option" "string option"
        \<comment> \<open>name, user, repo, repoPath, cwd\<close>
  | Config_path "bool option" "bool option" "string option" "string option"
        \<comment> \<open>user, repo, repoPath, cwd\<close>
  | Tag_list "string list option" "string option" "string option" "string option"
        \<comment> \<open>names, repoPath, cwd, template\<close>
  | Describe string "string option" "bool option" "string option" "string option" "string option"
        \<comment> \<open>message, revisions, resetAuthor, author, repoPath, cwd\<close>
text \<open>
  What the schemas ask of the numbers beyond being integers: \<^verbatim>\<open>.positive()\<close> and
  \<^verbatim>\<open>.nonnegative()\<close>.
\<close>

definition positive :: "int option \<Rightarrow> bool" where
  "positive x \<longleftrightarrow> (case x of None \<Rightarrow> True | Some k \<Rightarrow> 0 < k)"

definition nonnegative :: "int option \<Rightarrow> bool" where
  "nonnegative x \<longleftrightarrow> (case x of None \<Rightarrow> True | Some k \<Rightarrow> 0 \<le> k)"

primrec valid :: "tool_call \<Rightarrow> bool" where
  "valid (Log repoPath cwd limit) \<longleftrightarrow> positive limit"
| "valid (Diff from to repoPath cwd context stat) \<longleftrightarrow> nonnegative context"
| "valid (Git_clone source destination remoteName colocate depth) \<longleftrightarrow> positive depth"
| "valid (Show revision repoPath cwd context) \<longleftrightarrow> nonnegative context"
| "valid (Interdiff from to repoPath cwd context) \<longleftrightarrow> nonnegative context"
| "valid (Evolog revision repoPath cwd limit patch) \<longleftrightarrow> positive limit"
| "valid (Operation_diff from to repoPath cwd context) \<longleftrightarrow> nonnegative context"
| "valid (Operation_log limit repoPath cwd) \<longleftrightarrow> positive limit"
| "valid (Status repoPath cwd) \<longleftrightarrow> True"
| "valid (Rebase source destination repoPath cwd) \<longleftrightarrow> True"
| "valid (Commit message repoPath cwd) \<longleftrightarrow> True"
| "valid (New parents repoPath cwd) \<longleftrightarrow> True"
| "valid (Abandon revisions repoPath cwd) \<longleftrightarrow> True"
| "valid (Bookmark_create name revision repoPath cwd) \<longleftrightarrow> True"
| "valid (Bookmark_delete names repoPath cwd) \<longleftrightarrow> True"
| "valid (Bookmark_forget names repoPath cwd) \<longleftrightarrow> True"
| "valid (Bookmark_list repoPath cwd template) \<longleftrightarrow> True"
| "valid (Bookmark_move names revision repoPath cwd) \<longleftrightarrow> True"
| "valid (Bookmark_rename oldName newName repoPath cwd) \<longleftrightarrow> True"
| "valid (Bookmark_set name revision repoPath cwd) \<longleftrightarrow> True"
| "valid (Bookmark_track remoteBookmark repoPath cwd) \<longleftrightarrow> True"
| "valid (Bookmark_untrack remoteBookmark repoPath cwd) \<longleftrightarrow> True"
| "valid (Git_export repoPath cwd) \<longleftrightarrow> True"
| "valid (Git_fetch remote repoPath cwd branches) \<longleftrightarrow> True"
| "valid (Git_import repoPath cwd) \<longleftrightarrow> True"
| "valid (Init destination colocate gitRepo) \<longleftrightarrow> True"
| "valid (Git_push remote bookmarks all tracked deleted allowNew repoPath cwd) \<longleftrightarrow> True"
| "valid (Git_remote_add name url repoPath cwd) \<longleftrightarrow> True"
| "valid (Git_remote_list repoPath cwd) \<longleftrightarrow> True"
| "valid (Git_remote_remove name repoPath cwd) \<longleftrightarrow> True"
| "valid (Git_remote_rename oldName newName repoPath cwd) \<longleftrightarrow> True"
| "valid (Git_remote_set_url name url repoPath cwd) \<longleftrightarrow> True"
| "valid (Git_root repoPath cwd) \<longleftrightarrow> True"
| "valid (Revert revisions destination repoPath cwd) \<longleftrightarrow> True"
| "valid (Restore source destination paths repoPath cwd) \<longleftrightarrow> True"
| "valid (Edit revision repoPath cwd) \<longleftrightarrow> True"
| "valid (File_annotate path revision repoPath cwd) \<longleftrightarrow> True"
| "valid (File_chmod mode paths revision repoPath cwd) \<longleftrightarrow> True"
| "valid (File_list revision paths repoPath cwd) \<longleftrightarrow> True"
| "valid (File_show paths revision repoPath cwd) \<longleftrightarrow> True"
| "valid (File_track paths repoPath cwd) \<longleftrightarrow> True"
| "valid (File_untrack paths repoPath cwd) \<longleftrightarrow> True"
| "valid (Squash source destination paths keepEmptied repoPath cwd) \<longleftrightarrow> True"
| "valid (Workspace_root repoPath cwd) \<longleftrightarrow> True"
| "valid (Operation_abandon operation repoPath cwd) \<longleftrightarrow> True"
| "valid (Operation_restore operation repoPath cwd) \<longleftrightarrow> True"
| "valid (Operation_show operation repoPath cwd) \<longleftrightarrow> True"
| "valid (Operation_undo operation repoPath cwd) \<longleftrightarrow> True"
| "valid (Config_get name repoPath cwd) \<longleftrightarrow> True"
| "valid (Config_list name includeDefaults includeOverridden user repo repoPath cwd) \<longleftrightarrow> True"
| "valid (Config_set name value user repo repoPath cwd) \<longleftrightarrow> True"
| "valid (Config_unset name user repo repoPath cwd) \<longleftrightarrow> True"
| "valid (Config_path user repo repoPath cwd) \<longleftrightarrow> True"
| "valid (Tag_list names repoPath cwd template) \<longleftrightarrow> True"
| "valid (Describe message revisions resetAuthor author repoPath cwd) \<longleftrightarrow> True"
subsection \<open>The argument builders\<close>

text \<open>
  Each handler starts from an array literal and appends to it; \<^verbatim>\<open>args.push(a, b)\<close>
  appends \<open>[a, b]\<close>, and a spread \<^verbatim>\<open>...xs\<close> the elements of \<open>xs\<close>. The equations follow
  the handlers statement by statement.
\<close>

primrec build_args :: "tool_call \<Rightarrow> string list" where
  "build_args (Status repoPath cwd) =
       [''status'']
     @ if_string repoPath (\<lambda>repoPath. [''--repository'', repoPath])"
| "build_args (Rebase source destination repoPath cwd) =
       [''rebase'', ''--source'', source, ''--destination'', destination]
     @ if_string repoPath (\<lambda>repoPath. [''--repository'', repoPath])"
| "build_args (Commit message repoPath cwd) =
       [''commit'', ''-m'', message]
     @ if_string repoPath (\<lambda>repoPath. [''--repository'', repoPath])"
| "build_args (New parents repoPath cwd) =
       [''new'']
     @ if_string parents (\<lambda>parents. [''--parents'', parents])
     @ if_string repoPath (\<lambda>repoPath. [''--repository'', repoPath])"
| "build_args (Abandon revisions repoPath cwd) =
       [''abandon'', revisions]
     @ if_string repoPath (\<lambda>repoPath. [''--repository'', repoPath])"
| "build_args (Log repoPath cwd limit) =
       [''log'']
     @ if_string repoPath (\<lambda>repoPath. [''--repository'', repoPath])
     @ if_defined limit (\<lambda>limit. [''-n'', toString limit])"
| "build_args (Bookmark_create name revision repoPath cwd) =
       [''bookmark'', ''create'', name]
     @ if_string revision (\<lambda>revision. [''-r'', revision])
     @ if_string repoPath (\<lambda>repoPath. [''--repository'', repoPath])"
| "build_args (Bookmark_delete names repoPath cwd) =
       [''bookmark'', ''delete''] @ names
     @ if_string repoPath (\<lambda>repoPath. [''--repository'', repoPath])"
| "build_args (Bookmark_forget names repoPath cwd) =
       [''bookmark'', ''forget''] @ names
     @ if_string repoPath (\<lambda>repoPath. [''--repository'', repoPath])"
| "build_args (Bookmark_list repoPath cwd template) =
       [''bookmark'', ''list'']
     @ if_string repoPath (\<lambda>repoPath. [''--repository'', repoPath])
     @ if_string template (\<lambda>template. [''-T'', template])"
| "build_args (Bookmark_move names revision repoPath cwd) =
       [''bookmark'', ''move''] @ names @ [''-t'', revision]
     @ if_string repoPath (\<lambda>repoPath. [''--repository'', repoPath])"
| "build_args (Bookmark_rename oldName newName repoPath cwd) =
       [''bookmark'', ''rename'', oldName, newName]
     @ if_string repoPath (\<lambda>repoPath. [''--repository'', repoPath])"
| "build_args (Bookmark_set name revision repoPath cwd) =
       [''bookmark'', ''set'', name, ''-r'', revision]
     @ if_string repoPath (\<lambda>repoPath. [''--repository'', repoPath])"
| "build_args (Bookmark_track remoteBookmark repoPath cwd) =
       [''bookmark'', ''track'', remoteBookmark]
     @ if_string repoPath (\<lambda>repoPath. [''--repository'', repoPath])"
| "build_args (Bookmark_untrack remoteBookmark repoPath cwd) =
       [''bookmark'', ''untrack'', remoteBookmark]
     @ if_string repoPath (\<lambda>repoPath. [''--repository'', repoPath])"
| "build_args (Diff from to repoPath cwd context stat) =
       [''diff'']
     @ if_string from (\<lambda>from. [''-f'', from])
     @ if_string to (\<lambda>to. [''-t'', to])
     @ if_string repoPath (\<lambda>repoPath. [''--repository'', repoPath])
     @ if_defined context (\<lambda>context. [''--context'', toString context])
     @ if_boolean stat [''--stat'']"
| "build_args (Git_clone source destination remoteName colocate depth) =
       [''git'', ''clone'', source]
     @ if_string destination (\<lambda>destination. [destination])
     @ if_string remoteName (\<lambda>remoteName. [''--remote'', remoteName])
     @ if_boolean colocate [''--colocate'']
     @ if_number depth (\<lambda>depth. [''--depth'', toString depth])"
| "build_args (Git_export repoPath cwd) =
       [''git'', ''export'']
     @ if_string repoPath (\<lambda>repoPath. [''--repository'', repoPath])"
| "build_args (Git_fetch remote repoPath cwd branches) =
       [''git'', ''fetch'']
     @ if_string remote (\<lambda>remote. [''--remote'', remote])
     @ if_string repoPath (\<lambda>repoPath. [''--repository'', repoPath])
     @ if_array branches (\<lambda>branches. ''--branch'' # branches)"
| "build_args (Git_import repoPath cwd) =
       [''git'', ''import'']
     @ if_string repoPath (\<lambda>repoPath. [''--repository'', repoPath])"
| "build_args (Init destination colocate gitRepo) =
       [''git'', ''init'']
     @ if_string destination (\<lambda>destination. [destination])
     @ if_boolean colocate [''--colocate'']
     @ if_string gitRepo (\<lambda>gitRepo. [''--git-repo'', gitRepo])"
| "build_args (Git_push remote bookmarks all tracked deleted allowNew repoPath cwd) =
       [''git'', ''push'']
     @ if_string remote (\<lambda>remote. [''--remote'', remote])
     @ if_array bookmarks (\<lambda>bookmarks. ''--bookmark'' # bookmarks)
     @ if_boolean all [''--all'']
     @ if_boolean tracked [''--tracked'']
     @ if_boolean deleted [''--deleted'']
     @ if_boolean allowNew [''--allow-new'']
     @ if_string repoPath (\<lambda>repoPath. [''--repository'', repoPath])"
| "build_args (Git_remote_add name url repoPath cwd) =
       [''git'', ''remote'', ''add'', name, url]
     @ if_string repoPath (\<lambda>repoPath. [''--repository'', repoPath])"
| "build_args (Git_remote_list repoPath cwd) =
       [''git'', ''remote'', ''list'']
     @ if_string repoPath (\<lambda>repoPath. [''--repository'', repoPath])"
| "build_args (Git_remote_remove name repoPath cwd) =
       [''git'', ''remote'', ''remove'', name]
     @ if_string repoPath (\<lambda>repoPath. [''--repository'', repoPath])"
| "build_args (Git_remote_rename oldName newName repoPath cwd) =
       [''git'', ''remote'', ''rename'', oldName, newName]
     @ if_string repoPath (\<lambda>repoPath. [''--repository'', repoPath])"
| "build_args (Git_remote_set_url name url repoPath cwd) =
       [''git'', ''remote'', ''set-url'', name, url]
     @ if_string repoPath (\<lambda>repoPath. [''--repository'', repoPath])"
| "build_args (Git_root repoPath cwd) =
       [''git'', ''root'']
     @ if_string repoPath (\<lambda>repoPath. [''--repository'', repoPath])"
| "build_args (Show revision repoPath cwd context) =
       [''show'']
     @ if_string revision (\<lambda>revision. [''-r'', revision])
     @ if_string repoPath (\<lambda>repoPath. [''--repository'', repoPath])
     @ if_defined context (\<lambda>context. [''--context'', toString context])"
| "build_args (Revert revisions destination repoPath cwd) =
       [''revert'']
     @ if_string destination (\<lambda>destination. [''-d'', destination])
     @ revisions
     @ if_string repoPath (\<lambda>repoPath. [''--repository'', repoPath])"
| "build_args (Restore source destination paths repoPath cwd) =
       [''restore'']
     @ if_string source (\<lambda>source. [''-f'', source])
     @ if_string destination (\<lambda>destination. [''-t'', destination])
     @ paths
     @ if_string repoPath (\<lambda>repoPath. [''--repository'', repoPath])"
| "build_args (Interdiff from to repoPath cwd context) =
       [''interdiff'', ''-f'', from, ''-t'', to]
     @ if_string repoPath (\<lambda>repoPath. [''--repository'', repoPath])
     @ if_defined context (\<lambda>context. [''--context'', toString context])"
| "build_args (Evolog revision repoPath cwd limit patch) =
       [''evolog'']
     @ if_string revision (\<lambda>revision. [''-r'', revision])
     @ if_string repoPath (\<lambda>repoPath. [''--repository'', repoPath])
     @ if_number limit (\<lambda>limit. [''-n'', toString limit])
     @ if_boolean patch [''-p'']"
| "build_args (Edit revision repoPath cwd) =
       [''edit'', revision]
     @ if_string repoPath (\<lambda>repoPath. [''--repository'', repoPath])"
| "build_args (File_annotate path revision repoPath cwd) =
       [''file'', ''annotate'']
     @ if_string revision (\<lambda>revision. [''-r'', revision])
     @ [path]
     @ if_string repoPath (\<lambda>repoPath. [''--repository'', repoPath])"
| "build_args (File_chmod mode paths revision repoPath cwd) =
       [''file'', ''chmod'']
     @ if_string revision (\<lambda>revision. [''-r'', revision])
     @ [mode_string mode]
     @ paths
     @ if_string repoPath (\<lambda>repoPath. [''--repository'', repoPath])"
| "build_args (File_list revision paths repoPath cwd) =
       [''file'', ''list'']
     @ if_string revision (\<lambda>revision. [''-r'', revision])
     @ if_array paths (\<lambda>paths. paths)
     @ if_string repoPath (\<lambda>repoPath. [''--repository'', repoPath])"
| "build_args (File_show paths revision repoPath cwd) =
       [''file'', ''show'']
     @ if_string revision (\<lambda>revision. [''-r'', revision])
     @ paths
     @ if_string repoPath (\<lambda>repoPath. [''--repository'', repoPath])"
| "build_args (File_track paths repoPath cwd) =
       [''file'', ''track''] @ paths
     @ if_string repoPath (\<lambda>repoPath. [''--repository'', repoPath])"
| "build_args (File_untrack paths repoPath cwd) =
       [''file'', ''untrack''] @ paths
     @ if_string repoPath (\<lambda>repoPath. [''--repository'', repoPath])"
| "build_args (Squash source destination paths keepEmptied repoPath cwd) =
       [''squash'']
     @ if_string source (\<lambda>source. [''-f'', source])
     @ if_string destination (\<lambda>destination. [''-t'', destination])
     @ if_array paths (\<lambda>paths. paths)
     @ if_boolean keepEmptied [''-k'']
     @ if_string repoPath (\<lambda>repoPath. [''--repository'', repoPath])"
| "build_args (Workspace_root repoPath cwd) =
       [''workspace'', ''root'']
     @ if_string repoPath (\<lambda>repoPath. [''--repository'', repoPath])"
| "build_args (Operation_abandon operation repoPath cwd) =
       [''operation'', ''abandon'', operation]
     @ if_string repoPath (\<lambda>repoPath. [''--repository'', repoPath])"
| "build_args (Operation_diff from to repoPath cwd context) =
       [''operation'', ''diff'']
     @ if_string from (\<lambda>from. [''-f'', from])
     @ if_string to (\<lambda>to. [''-t'', to])
     @ if_string repoPath (\<lambda>repoPath. [''--repository'', repoPath])
     @ if_defined context (\<lambda>context. [''--context'', toString context])"
| "build_args (Operation_log limit repoPath cwd) =
       [''operation'', ''log'']
     @ if_number limit (\<lambda>limit. [''-n'', toString limit])
     @ if_string repoPath (\<lambda>repoPath. [''--repository'', repoPath])"
| "build_args (Operation_restore operation repoPath cwd) =
       [''operation'', ''restore'', operation]
     @ if_string repoPath (\<lambda>repoPath. [''--repository'', repoPath])"
| "build_args (Operation_show operation repoPath cwd) =
       [''operation'', ''show'']
     @ if_string operation (\<lambda>operation. [operation])
     @ if_string repoPath (\<lambda>repoPath. [''--repository'', repoPath])"
| "build_args (Operation_undo operation repoPath cwd) =
       [''operation'', ''undo'']
     @ if_string operation (\<lambda>operation. [operation])
     @ if_string repoPath (\<lambda>repoPath. [''--repository'', repoPath])"
| "build_args (Config_get name repoPath cwd) =
       [''config'', ''get'', name]
     @ if_string repoPath (\<lambda>repoPath. [''--repository'', repoPath])"
| "build_args (Config_list name includeDefaults includeOverridden user repo repoPath cwd) =
       [''config'', ''list'']
     @ if_string name (\<lambda>name. [name])
     @ if_boolean includeDefaults [''--include-defaults'']
     @ if_boolean includeOverridden [''--include-overridden'']
     @ if_boolean user [''--user'']
     @ if_boolean repo [''--repo'']
     @ if_string repoPath (\<lambda>repoPath. [''--repository'', repoPath])"
| "build_args (Config_set name value user repo repoPath cwd) =
       [''config'', ''set'']
     @ if_boolean user [''--user'']
     @ if_boolean repo [''--repo'']
     @ [name, value]
     @ if_string repoPath (\<lambda>repoPath. [''--repository'', repoPath])"
| "build_args (Config_unset name user repo repoPath cwd) =
       [''config'', ''unset'']
     @ if_boolean user [''--user'']
     @ if_boolean repo [''--repo'']
     @ [name]
     @ if_string repoPath (\<lambda>repoPath. [''--repository'', repoPath])"
| "build_args (Config_path user repo repoPath cwd) =
       [''config'', ''path'']
     @ if_boolean user [''--user'']
     @ if_boolean repo [''--repo'']
     @ if_string repoPath (\<lambda>repoPath. [''--repository'', repoPath])"
| "build_args (Tag_list names repoPath cwd template) =
       [''tag'', ''list'']
     @ if_array names (\<lambda>names. names)
     @ if_string repoPath (\<lambda>repoPath. [''--repository'', repoPath])
     @ if_string template (\<lambda>template. [''-T'', template])"
| "build_args (Describe message revisions resetAuthor author repoPath cwd) =
       [''describe'']
     @ if_string repoPath (\<lambda>repoPath. [''--repository'', repoPath])
     @ [''-m'', message]
     @ if_boolean resetAuthor [''--reset-author'']
     @ if_string author (\<lambda>author. [''--author'', author])
     @ if_string revisions (\<lambda>revisions. [revisions])"
text \<open>
  The second argument of the handler's call of \<^verbatim>\<open>runJJCommand\<close>: the \<^verbatim>\<open>cwd\<close>
  parameter, except for \<^verbatim>\<open>git-clone\<close> and \<^verbatim>\<open>init\<close>, which have none and call
  \<^verbatim>\<open>runJJCommand(args)\<close>.
\<close>

primrec working_directory :: "tool_call \<Rightarrow> string option" where
  "working_directory (Status repoPath cwd) = cwd"
| "working_directory (Rebase source destination repoPath cwd) = cwd"
| "working_directory (Commit message repoPath cwd) = cwd"
| "working_directory (New parents repoPath cwd) = cwd"
| "working_directory (Abandon revisions repoPath cwd) = cwd"
| "working_directory (Log repoPath cwd limit) = cwd"
| "working_directory (Bookmark_create name revision repoPath cwd) = cwd"
| "working_directory (Bookmark_delete names repoPath cwd) = cwd"
| "working_directory (Bookmark_forget names repoPath cwd) = cwd"
| "working_directory (Bookmark_list repoPath cwd template) = cwd"
| "working_directory (Bookmark_move names revision repoPath cwd) = cwd"
| "working_directory (Bookmark_rename oldName newName repoPath cwd) = cwd"
| "working_directory (Bookmark_set name revision repoPath cwd) = cwd"
| "working_directory (Bookmark_track remoteBookmark repoPath cwd) = cwd"
| "working_directory (Bookmark_untrack remoteBookmark repoPath cwd) = cwd"
| "working_directory (Diff from to repoPath cwd context stat) = cwd"
| "working_directory (Git_clone source destination remoteName colocate depth) = None"
| "working_directory (Git_export repoPath cwd) = cwd"
| "working_directory (Git_fetch remote repoPath cwd branches) = cwd"
| "working_directory (Git_import repoPath cwd) = cwd"
| "working_directory (Init destination colocate gitRepo) = None"
| "working_directory (Git_push remote bookmarks all tracked deleted allowNew repoPath cwd) = cwd"
| "working_directory (Git_remote_add name url repoPath cwd) = cwd"
| "working_directory (Git_remote_list repoPath cwd) = cwd"
| "working_directory (Git_remote_remove name repoPath cwd) = cwd"
| "working_directory (Git_remote_rename oldName newName repoPath cwd) = cwd"
| "working_directory (Git_remote_set_url name url repoPath cwd) = cwd"
| "working_directory (Git_root repoPath cwd) = cwd"
| "working_directory (Show revision repoPath cwd context) = cwd"
| "working_directory (Revert revisions destination repoPath cwd) = cwd"
| "working_directory (Restore source destination paths repoPath cwd) = cwd"
| "working_directory (Interdiff from to repoPath cwd context) = cwd"
| "working_directory (Evolog revision repoPath cwd limit patch) = cwd"
| "working_directory (Edit revision repoPath cwd) = cwd"
| "working_directory (File_annotate path revision repoPath cwd) = cwd"
| "working_directory (File_chmod mode paths revision repoPath cwd) = cwd"
| "working_directory (File_list revision paths repoPath cwd) = cwd"
| "working_directory (File_show paths revision repoPath cwd) = cwd"
| "working_directory (File_track paths repoPath cwd) = cwd"
| "working_directory (File_untrack paths repoPath cwd) = cwd"
| "working_directory (Squash source destination paths keepEmptied repoPath cwd) = cwd"
| "working_directory (Workspace_root repoPath cwd) = cwd"
| "working_directory (Operation_abandon operation repoPath cwd) = cwd"
| "working_directory (Operation_diff from to repoPath cwd context) = cwd"
| "working_directory (Operation_log limit repoPath cwd) = cwd"
| "working_directory (Operation_restore operation repoPath cwd) = cwd"
| "working_directory (Operation_show operation repoPath cwd) = cwd"
| "working_directory (Operation_undo operation repoPath cwd) = cwd"
| "working_directory (Config_get name repoPath cwd) = cwd"
| "working_directory (Config_list name includeDefaults includeOverridden user repo repoPath cwd) = cwd"
| "working_directory (Config_set name value user repo repoPath cwd) = cwd"
| "working_directory (Config_unset name user repo repoPath cwd) = cwd"
| "working_directory (Config_path user repo repoPath cwd) = cwd"
| "working_directory (Tag_list names repoPath cwd template) = cwd"
| "working_directory (Describe message revisions resetAuthor author repoPath cwd) = cwd"
text \<open>The handler's result, \<^verbatim>\<open>{ content: [{ type: "text", text: output }] }\<close>.\<close>

record content_block =
  content_type :: string
  content_text :: string

record tool_result =
  content :: "content_block list"

definition tool_handler :: "exec_file \<Rightarrow> tool_call \<Rightarrow> exec_error + tool_result" where
  "tool_handler execFileAsync call =
     (case runJJCommand execFileAsync (build_args call) (working_directory call) of
        Inl error \<Rightarrow> Inl error
      | Inr output \<Rightarrow> Inr \<lparr>content = [\<lparr>content_type = ''text'', content_text = output\<rparr>]\<rparr>)"

section \<open>The layout of an argument list\<close>

text \<open>
  To speak of one parameter of a tool and of its place in the argument list, each
  handler is described a second time, as the fixed subcommand tokens of its array literal
  followed by one piece per parameter it pushes, in the order of the pushes. The
  constructors of \<open>piece\<close> are the forms of push that occur in the handlers.
\<close>

datatype piece =
    Required_value string
      \<comment> \<open>\<^verbatim>\<open>value\<close> in the array literal, or \<^verbatim>\<open>args.push(value)\<close>\<close>
  | Required_flag string string
      \<comment> \<open>\<^verbatim>\<open>"--flag", value\<close> in the array literal, or \<^verbatim>\<open>args.push("--flag", value)\<close>\<close>
  | Required_array "string list"
      \<comment> \<open>\<^verbatim>\<open>...values\<close> in the array literal, or \<^verbatim>\<open>args.push(...values)\<close>\<close>
  | Optional_flag string "string option"
      \<comment> \<open>\<^verbatim>\<open>if (value) args.push("--flag", value)\<close>\<close>
  | Optional_value "string option"
      \<comment> \<open>\<^verbatim>\<open>if (value) args.push(value)\<close>\<close>
  | Optional_switch string "bool option"
      \<comment> \<open>\<^verbatim>\<open>if (value) args.push("--flag")\<close>\<close>
  | Optional_number string "int option"
      \<comment> \<open>\<^verbatim>\<open>if (value !== undefined) args.push("--flag", value.toString())\<close>\<close>
  | Optional_nonzero_number string "int option"
      \<comment> \<open>\<^verbatim>\<open>if (value) args.push("--flag", value.toString())\<close>\<close>
  | Optional_array_flag string "string list option"
      \<comment> \<open>\<^verbatim>\<open>if (values) args.push("--flag", ...values)\<close>\<close>
  | Optional_array "string list option"
      \<comment> \<open>\<^verbatim>\<open>if (values) args.push(...values)\<close>\<close>

fun tokens :: "piece \<Rightarrow> string list" where
  "tokens (Required_value v) = [v]"
| "tokens (Required_flag flag v) = [flag, v]"
| "tokens (Required_array vs) = vs"
| "tokens (Optional_flag flag x) = if_string x (\<lambda>v. [flag, v])"
| "tokens (Optional_value x) = if_string x (\<lambda>v. [v])"
| "tokens (Optional_switch flag x) = if_boolean x [flag]"
| "tokens (Optional_number flag x) = if_defined x (\<lambda>k. [flag, toString k])"
| "tokens (Optional_nonzero_number flag x) = if_number x (\<lambda>k. [flag, toString k])"
| "tokens (Optional_array_flag flag x) = if_array x (\<lambda>vs. flag # vs)"
| "tokens (Optional_array x) = if_array x (\<lambda>vs. vs)"

fun optional :: "piece \<Rightarrow> bool" where
  "optional (Required_value v) = False"
| "optional (Required_flag flag v) = False"
| "optional (Required_array vs) = False"
| "optional _ = True"

primrec layout :: "tool_call \<Rightarrow> string list \<times> piece list" where
  "layout (Status repoPath cwd) =
     ([''status''],
      [Optional_flag ''--repository'' repoPath])"
| "layout (Rebase source destination repoPath cwd) =
     ([''rebase''],
      [Required_flag ''--source'' source,
       Required_flag ''--destination'' destination,
       Optional_flag ''--repository'' repoPath])"
| "layout (Commit message repoPath cwd) =
     ([''commit''],
      [Required_flag ''-m'' message,
       Optional_flag ''--repository'' repoPath])"
| "layout (New parents repoPath cwd) =
     ([''new''],
      [Optional_flag ''--parents'' parents,
       Optional_flag ''--repository'' repoPath])"
| "layout (Abandon revisions repoPath cwd) =
     ([''abandon''],
      [Required_value revisions,
       Optional_flag ''--repository'' repoPath])"
| "layout (Log repoPath cwd limit) =
     ([''log''],
      [Optional_flag ''--repository'' repoPath,
       Optional_number ''-n'' limit])"
| "layout (Bookmark_create name revision repoPath cwd) =
     ([''bookmark'', ''create''],
      [Required_value name,
       Optional_flag ''-r'' revision,
       Optional_flag ''--repository'' repoPath])"
| "layout (Bookmark_delete names repoPath cwd) =
     ([''bookmark'', ''delete''],
      [Required_array names,
       Optional_flag ''--repository'' repoPath])"
| "layout (Bookmark_forget names repoPath cwd) =
     ([''bookmark'', ''forget''],
      [Required_array names,
       Optional_flag ''--repository'' repoPath])"
| "layout (Bookmark_list repoPath cwd template) =
     ([''bookmark'', ''list''],
      [Optional_flag ''--repository'' repoPath,
       Optional_flag ''-T'' template])"
| "layout (Bookmark_move names revision repoPath cwd) =
     ([''bookmark'', ''move''],
      [Required_array names,
       Required_flag ''-t'' revision,
       Optional_flag ''--repository'' repoPath])"
| "layout (Bookmark_rename oldName newName repoPath cwd) =
     ([''bookmark'', ''rename''],
      [Required_value oldName,
       Required_value newName,
       Optional_flag ''--repository'' repoPath])"
| "layout (Bookmark_set name revision repoPath cwd) =
     ([''bookmark'', ''set''],
      [Required_value name,
       Required_flag ''-r'' revision,
       Optional_flag ''--repository'' repoPath])"
| "layout (Bookmark_track remoteBookmark repoPath cwd) =
     ([''bookmark'', ''track''],
      [Required_value remoteBookmark,
       Optional_flag ''--repository'' repoPath])"
| "layout (Bookmark_untrack remoteBookmark repoPath cwd) =
     ([''bookmark'', ''untrack''],
      [Required_value remoteBookmark,
       Optional_flag ''--repository'' repoPath])"
| "layout (Diff from to repoPath cwd context stat) =
     ([''diff''],
      [Optional_flag ''-f'' from,
       Optional_flag ''-t'' to,
       Optional_flag ''--repository'' repoPath,
       Optional_number ''--context'' context,
       Optional_switch ''--stat'' stat])"
| "layout (Git_clone source destination remoteName colocate depth) =
     ([''git'', ''clone''],
      [Required_value source,
       Optional_value destination,
       Optional_flag ''--remote'' remoteName,
       Optional_switch ''--colocate'' colocate,
       Optional_nonzero_number ''--depth'' depth])"
| "layout (Git_export repoPath cwd) =
     ([''git'', ''export''],
      [Optional_flag ''--repository'' repoPath])"
| "layout (Git_fetch remote repoPath cwd branches) =
     ([''git'', ''fetch''],
      [Optional_flag ''--remote'' remote,
       Optional_flag ''--repository'' repoPath,
       Optional_array_flag ''--branch'' branches])"
| "layout (Git_import repoPath cwd) =
     ([''git'', ''import''],
      [Optional_flag ''--repository'' repoPath])"
| "layout (Init destination colocate gitRepo) =
     ([''git'', ''init''],
      [Optional_value destination,
       Optional_switch ''--colocate'' colocate,
       Optional_flag ''--git-repo'' gitRepo])"
| "layout (Git_push remote bookmarks all tracked deleted allowNew repoPath cwd) =
     ([''git'', ''push''],
      [Optional_flag ''--remote'' remote,
       Optional_array_flag ''--bookmark'' bookmarks,
       Optional_switch ''--all'' all,
       Optional_switch ''--tracked'' tracked,
       Optional_switch ''--deleted'' deleted,
       Optional_switch ''--allow-new'' allowNew,
       Optional_flag ''--repository'' repoPath])"
| "layout (Git_remote_add name url repoPath cwd) =
     ([''git'', ''remote'', ''add''],
      [Required_value name,
       Required_value url,
       Optional_flag ''--repository'' repoPath])"
| "layout (Git_remote_list repoPath cwd) =
     ([''git'', ''remote'', ''list''],
      [Optional_flag ''--repository'' repoPath])"
| "layout (Git_remote_remove name repoPath cwd) =
     ([''git'', ''remote'', ''remove''],
      [Required_value name,
       Optional_flag ''--repository'' repoPath])"
| "layout (Git_remote_rename oldName newName repoPath cwd) =
     ([''git'', ''remote'', ''rename''],
      [Required_value oldName,
       Required_value newName,
       Optional_flag ''--repository'' repoPath])"
| "layout (Git_remote_set_url name url repoPath cwd) =
     ([''git'', ''remote'', ''set-url''],
      [Required_value name,
       Required_value url,
       Optional_flag ''--repository'' repoPath])"
| "layout (Git_root repoPath cwd) =
     ([''git'', ''root''],
      [Optional_flag ''--repository'' repoPath])"
| "layout (Show revision repoPath cwd context) =
     ([''show''],
      [Optional_flag ''-r'' revision,
       Optional_flag ''--repository'' repoPath,
       Optional_number ''--context'' context])"
| "layout (Revert revisions destination repoPath cwd) =
     ([''revert''],
      [Optional_flag ''-d'' destination,
       Required_array revisions,
       Optional_flag ''--repository'' repoPath])"
| "layout (Restore source destination paths repoPath cwd) =
     ([''restore''],
      [Optional_flag ''-f'' source,
       Optional_flag ''-t'' destination,
       Required_array paths,
       Optional_flag ''--repository'' repoPath])"
| "layout (Interdiff from to repoPath cwd context) =
     ([''interdiff''],
      [Required_flag ''-f'' from,
       Required_flag ''-t'' to,
       Optional_flag ''--repository'' repoPath,
       Optional_number ''--context'' context])"
| "layout (Evolog revision repoPath cwd limit patch) =
     ([''evolog''],
      [Optional_flag ''-r'' revision,
       Optional_flag ''--repository'' repoPath,
       Optional_nonzero_number ''-n'' limit,
       Optional_switch ''-p'' patch])"
| "layout (Edit revision repoPath cwd) =
     ([''edit''],
      [Required_value revision,
       Optional_flag ''--repository'' repoPath])"
| "layout (File_annotate path revision repoPath cwd) =
     ([''file'', ''annotate''],
      [Optional_flag ''-r'' revision,
       Required_value path,
       Optional_flag ''--repository'' repoPath])"
| "layout (File_chmod mode paths revision repoPath cwd) =
     ([''file'', ''chmod''],
      [Optional_flag ''-r'' revision,
       Required_value (mode_string mode),
       Required_array paths,
       Optional_flag ''--repository'' repoPath])"
| "layout (File_list revision paths repoPath cwd) =
     ([''file'', ''list''],
      [Optional_flag ''-r'' revision,
       Optional_array paths,
       Optional_flag ''--repository'' repoPath])"
| "layout (File_show paths revision repoPath cwd) =
     ([''file'', ''show''],
      [Optional_flag ''-r'' revision,
       Required_array paths,
       Optional_flag ''--repository'' repoPath])"
| "layout (File_track paths repoPath cwd) =
     ([''file'', ''track''],
      [Required_array paths,
       Optional_flag ''--repository'' repoPath])"
| "layout (File_untrack paths repoPath cwd) =
     ([''file'', ''untrack''],
      [Required_array paths,
       Optional_flag ''--repository'' repoPath])"
| "layout (Squash source destination paths keepEmptied repoPath cwd) =
     ([''squash''],
      [Optional_flag ''-f'' source,
       Optional_flag ''-t'' destination,
       Optional_array paths,
       Optional_switch ''-k'' keepEmptied,
       Optional_flag ''--repository'' repoPath])"
| "layout (Workspace_root repoPath cwd) =
     ([''workspace'', ''root''],
      [Optional_flag ''--repository'' repoPath])"
| "layout (Operation_abandon operation repoPath cwd) =
     ([''operation'', ''abandon''],
      [Required_value operation,
       Optional_flag ''--repository'' repoPath])"
| "layout (Operation_diff from to repoPath cwd context) =
     ([''operation'', ''diff''],
      [Optional_flag ''-f'' from,
       Optional_flag ''-t'' to,
       Optional_flag ''--repository'' repoPath,
       Optional_number ''--context'' context])"
| "layout (Operation_log limit repoPath cwd) =
     ([''operation'', ''log''],
      [Optional_nonzero_number ''-n'' limit,
       Optional_flag ''--repository'' repoPath])"
| "layout (Operation_restore operation repoPath cwd) =
     ([''operation'', ''restore''],
      [Required_value operation,
       Optional_flag ''--repository'' repoPath])"
| "layout (Operation_show operation repoPath cwd) =
     ([''operation'', ''show''],
      [Optional_value operation,
       Optional_flag ''--repository'' repoPath])"
| "layout (Operation_undo operation repoPath cwd) =
     ([''operation'', ''undo''],
      [Optional_value operation,
       Optional_flag ''--repository'' repoPath])"
| "layout (Config_get name repoPath cwd) =
     ([''config'', ''get''],
      [Required_value name,
       Optional_flag ''--repository'' repoPath])"
| "layout (Config_list name includeDefaults includeOverridden user repo repoPath cwd) =
     ([''config'', ''list''],
      [Optional_value name,
       Optional_switch ''--include-defaults'' includeDefaults,
       Optional_switch ''--include-overridden'' includeOverridden,
       Optional_switch ''--user'' user,
       Optional_switch ''--repo'' repo,
       Optional_flag ''--repository'' repoPath])"
| "layout (Config_set name value user repo repoPath cwd) =
     ([''config'', ''set''],
      [Optional_switch ''--user'' user,
       Optional_switch ''--repo'' repo,
       Required_value name,
       Required_value value,
       Optional_flag ''--repository'' repoPath])"
| "layout (Config_unset name user repo repoPath cwd) =
     ([''config'', ''unset''],
      [Optional_switch ''--user'' user,
       Optional_switch ''--repo'' repo,
       Required_value name,
       Optional_flag ''--repository'' repoPath])"
| "layout (Config_path user repo repoPath cwd) =
     ([''config'', ''path''],
      [Optional_switch ''--user'' user,
       Optional_switch ''--repo'' repo,
       Optional_flag ''--repository'' repoPath])"
| "layout (Tag_list names repoPath cwd template) =
     ([''tag'', ''list''],
      [Optional_array names,
       Optional_flag ''--repository'' repoPath,
       Optional_flag ''-T'' template])"
| "layout (Describe message revisions resetAuthor author repoPath cwd) =
     ([''describe''],
      [Optional_flag ''--repository'' repoPath,
       Required_flag ''-m'' message,
       Optional_switch ''--reset-author'' resetAuthor,
       Optional_flag ''--author'' author,
       Optional_value revisions])"
definition subcommand :: "tool_call \<Rightarrow> string list" where
  "subcommand call = fst (layout call)"

definition pieces :: "tool_call \<Rightarrow> piece list" where
  "pieces call = snd (layout call)"

text \<open>The tokens of the pieces before and after the piece at index \<open>i\<close>.\<close>

definition tokens_before :: "tool_call \<Rightarrow> nat \<Rightarrow> string list" where
  "tokens_before call i = subcommand call @ concat (map tokens (take i (pieces call)))"

definition tokens_after :: "tool_call \<Rightarrow> nat \<Rightarrow> string list" where
  "tokens_after call i = concat (map tokens (drop (Suc i) (pieces call)))"

text \<open>The tokens of the parameters that the schema does not mark optional.\<close>

definition required_args :: "tool_call \<Rightarrow> string list" where
  "required_args call = concat (map tokens (filter (\<lambda>p. \<not> optional p) (pieces call)))"

subsection \<open>Calls that leave parameters out\<close>

text \<open>The call with every optional parameter omitted.\<close>

primrec omit_optionals :: "tool_call \<Rightarrow> tool_call" where
  "omit_optionals (Status repoPath cwd) =
     Status None None"
| "omit_optionals (Rebase source destination repoPath cwd) =
     Rebase source destination None None"
| "omit_optionals (Commit message repoPath cwd) =
     Commit message None None"
| "omit_optionals (New parents repoPath cwd) =
     New None None None"
| "omit_optionals (Abandon revisions repoPath cwd) =
     Abandon revisions None None"
| "omit_optionals (Log repoPath cwd limit) =
     Log None None None"
| "omit_optionals (Bookmark_create name revision repoPath cwd) =
     Bookmark_create name None None None"
| "omit_optionals (Bookmark_delete names repoPath cwd) =
     Bookmark_delete names None None"
| "omit_optionals (Bookmark_forget names repoPath cwd) =
     Bookmark_forget names None None"
| "omit_optionals (Bookmark_list repoPath cwd template) =
     Bookmark_list None None None"
| "omit_optionals (Bookmark_move names revision repoPath cwd) =
     Bookmark_move names revision None None"
| "omit_optionals (Bookmark_rename oldName newName repoPath cwd) =
     Bookmark_rename oldName newName None None"
| "omit_optionals (Bookmark_set name revision repoPath cwd) =
     Bookmark_set name revision None None"
| "omit_optionals (Bookmark_track remoteBookmark repoPath cwd) =
     Bookmark_track remoteBookmark None None"
| "omit_optionals (Bookmark_untrack remoteBookmark repoPath cwd) =
     Bookmark_untrack remoteBookmark None None"
| "omit_optionals (Diff from to repoPath cwd context stat) =
     Diff None None None None None None"
| "omit_optionals (Git_clone source destination remoteName colocate depth) =
     Git_clone source None None None None"
| "omit_optionals (Git_export repoPath cwd) =
     Git_export None None"
| "omit_optionals (Git_fetch remote repoPath cwd branches) =
     Git_fetch None None None None"
| "omit_optionals (Git_import repoPath cwd) =
     Git_import None None"
| "omit_optionals (Init destination colocate gitRepo) =
     Init None None None"
| "omit_optionals (Git_push remote bookmarks all tracked deleted allowNew repoPath cwd) =
     Git_push None None None None None None None None"
| "omit_optionals (Git_remote_add name url repoPath cwd) =
     Git_remote_add name url None None"
| "omit_optionals (Git_remote_list repoPath cwd) =
     Git_remote_list None None"
| "omit_optionals (Git_remote_remove name repoPath cwd) =
     Git_remote_remove name None None"
| "omit_optionals (Git_remote_rename oldName newName repoPath cwd) =
     Git_remote_rename oldName newName None None"
| "omit_optionals (Git_remote_set_url name url repoPath cwd) =
     Git_remote_set_url name url None None"
| "omit_optionals (Git_root repoPath cwd) =
     Git_root None None"
| "omit_optionals (Show revision repoPath cwd context) =
     Show None None None None"
| "omit_optionals (Revert revisions destination repoPath cwd) =
     Revert revisions None None None"
| "omit_optionals (Restore source destination paths repoPath cwd) =
     Restore None None paths None None"
| "omit_optionals (Interdiff from to repoPath cwd context) =
     Interdiff from to None None None"
| "omit_optionals (Evolog revision repoPath cwd limit patch) =
     Evolog None None None None None"
| "omit_optionals (Edit revision repoPath cwd) =
     Edit revision None None"
| "omit_optionals (File_annotate path revision repoPath cwd) =
     File_annotate path None None None"
| "omit_optionals (File_chmod mode paths revision repoPath cwd) =
     File_chmod mode paths None None None"
| "omit_optionals (File_list revision paths repoPath cwd) =
     File_list None None None None"
| "omit_optionals (File_show paths revision repoPath cwd) =
     File_show paths None None None"
| "omit_optionals (File_track paths repoPath cwd) =
     File_track paths None None"
| "omit_optionals (File_untrack paths repoPath cwd) =
     File_untrack paths None None"
| "omit_optionals (Squash source destination paths keepEmptied repoPath cwd) =
     Squash None None None None None None"
| "omit_optionals (Workspace_root repoPath cwd) =
     Workspace_root None None"
| "omit_optionals (Operation_abandon operation repoPath cwd) =
     Operation_abandon operation None None"
| "omit_optionals (Operation_diff from to repoPath cwd context) =
     Operation_diff None None None None None"
| "omit_optionals (Operation_log limit repoPath cwd) =
     Operation_log None None None"
| "omit_optionals (Operation_restore operation repoPath cwd) =
     Operation_restore operation None None"
| "omit_optionals (Operation_show operation repoPath cwd) =
     Operation_show None None None"
| "omit_optionals (Operation_undo operation repoPath cwd) =
     Operation_undo None None None"
| "omit_optionals (Config_get name repoPath cwd) =
     Config_get name None None"
| "omit_optionals (Config_list name includeDefaults includeOverridden user repo repoPath cwd) =
     Config_list None None None None None None None"
| "omit_optionals (Config_set name value user repo repoPath cwd) =
     Config_set name value None None None None"
| "omit_optionals (Config_unset name user repo repoPath cwd) =
     Config_unset name None None None None"
| "omit_optionals (Config_path user repo repoPath cwd) =
     Config_path None None None None"
| "omit_optionals (Tag_list names repoPath cwd template) =
     Tag_list None None None None"
| "omit_optionals (Describe message revisions resetAuthor author repoPath cwd) =
     Describe message None None None None None"
text \<open>
  The call in which every optional string parameter that was supplied as the empty
  string is omitted instead (\<^verbatim>\<open>cwd\<close> included, which takes no part in the argument
  list).
\<close>

definition unblank :: "string option \<Rightarrow> string option" where
  "unblank x = (if x = Some [] then None else x)"

primrec blank_to_omitted :: "tool_call \<Rightarrow> tool_call" where
  "blank_to_omitted (Status repoPath cwd) =
     Status (unblank repoPath) (unblank cwd)"
| "blank_to_omitted (Rebase source destination repoPath cwd) =
     Rebase source destination (unblank repoPath) (unblank cwd)"
| "blank_to_omitted (Commit message repoPath cwd) =
     Commit message (unblank repoPath) (unblank cwd)"
| "blank_to_omitted (New parents repoPath cwd) =
     New (unblank parents) (unblank repoPath) (unblank cwd)"
| "blank_to_omitted (Abandon revisions repoPath cwd) =
     Abandon revisions (unblank repoPath) (unblank cwd)"
| "blank_to_omitted (Log repoPath cwd limit) =
     Log (unblank repoPath) (unblank cwd) limit"
| "blank_to_omitted (Bookmark_create name revision repoPath cwd) =
     Bookmark_create name (unblank revision) (unblank repoPath) (unblank cwd)"
| "blank_to_omitted (Bookmark_delete names repoPath cwd) =
     Bookmark_delete names (unblank repoPath) (unblank cwd)"
| "blank_to_omitted (Bookmark_forget names repoPath cwd) =
     Bookmark_forget names (unblank repoPath) (unblank cwd)"
| "blank_to_omitted (Bookmark_list repoPath cwd template) =
     Bookmark_list (unblank repoPath) (unblank cwd) (unblank template)"
| "blank_to_omitted (Bookmark_move names revision repoPath cwd) =
     Bookmark_move names revision (unblank repoPath) (unblank cwd)"
| "blank_to_omitted (Bookmark_rename oldName newName repoPath cwd) =
     Bookmark_rename oldName newName (unblank repoPath) (unblank cwd)"
| "blank_to_omitted (Bookmark_set name revision repoPath cwd) =
     Bookmark_set name revision (unblank repoPath) (unblank cwd)"
| "blank_to_omitted (Bookmark_track remoteBookmark repoPath cwd) =
     Bookmark_track remoteBookmark (unblank repoPath) (unblank cwd)"
| "blank_to_omitted (Bookmark_untrack remoteBookmark repoPath cwd) =
     Bookmark_untrack remoteBookmark (unblank repoPath) (unblank cwd)"
| "blank_to_omitted (Diff from to repoPath cwd context stat) =
     Diff (unblank from) (unblank to) (unblank repoPath) (unblank cwd) context stat"
| "blank_to_omitted (Git_clone source destination remoteName colocate depth) =
     Git_clone source (unblank destination) (unblank remoteName) colocate depth"
| "blank_to_omitted (Git_export repoPath cwd) =
     Git_export (unblank repoPath) (unblank cwd)"
| "blank_to_omitted (Git_fetch remote repoPath cwd branches) =
     Git_fetch (unblank remote) (unblank repoPath) (unblank cwd) branches"
| "blank_to_omitted (Git_import repoPath cwd) =
     Git_import (unblank repoPath) (unblank cwd)"
| "blank_to_omitted (Init destination colocate gitRepo) =
     Init (unblank destination) colocate (unblank gitRepo)"
| "blank_to_omitted (Git_push remote bookmarks all tracked deleted allowNew repoPath cwd) =
     Git_push (unblank remote) bookmarks all tracked deleted allowNew (unblank repoPath) (unblank cwd)"
| "blank_to_omitted (Git_remote_add name url repoPath cwd) =
     Git_remote_add name url (unblank repoPath) (unblank cwd)"
| "blank_to_omitted (Git_remote_list repoPath cwd) =
     Git_remote_list (unblank repoPath) (unblank cwd)"
| "blank_to_omitted (Git_remote_remove name repoPath cwd) =
     Git_remote_remove name (unblank repoPath) (unblank cwd)"
| "blank_to_omitted (Git_remote_rename oldName newName repoPath cwd) =
     Git_remote_rename oldName newName (unblank repoPath) (unblank cwd)"
| "blank_to_omitted (Git_remote_set_url name url repoPath cwd) =
     Git_remote_set_url name url (unblank repoPath) (unblank cwd)"
| "blank_to_omitted (Git_root repoPath cwd) =
     Git_root (unblank repoPath) (unblank cwd)"
| "blank_to_omitted (Show revision repoPath cwd context) =
     Show (unblank revision) (unblank repoPath) (unblank cwd) context"
| "blank_to_omitted (Revert revisions destination repoPath cwd) =
     Revert revisions (unblank destination) (unblank repoPath) (unblank cwd)"
| "blank_to_omitted (Restore source destination paths repoPath cwd) =
     Restore (unblank source) (unblank destination) paths (unblank repoPath) (unblank cwd)"
| "blank_to_omitted (Interdiff from to repoPath cwd context) =
     Interdiff from to (unblank repoPath) (unblank cwd) context"
| "blank_to_omitted (Evolog revision repoPath cwd limit patch) =
     Evolog (unblank revision) (unblank repoPath) (unblank cwd) limit patch"
| "blank_to_omitted (Edit revision repoPath cwd) =
     Edit revision (unblank repoPath) (unblank cwd)"
| "blank_to_omitted (File_annotate path revision repoPath cwd) =
     File_annotate path (unblank revision) (unblank repoPath) (unblank cwd)"
| "blank_to_omitted (File_chmod mode paths revision repoPath cwd) =
     File_chmod mode paths (unblank revision) (unblank repoPath) (unblank cwd)"
| "blank_to_omitted (File_list revision paths repoPath cwd) =
     File_list (unblank revision) paths (unblank repoPath) (unblank cwd)"
| "blank_to_omitted (File_show paths revision repoPath cwd) =
     File_show paths (unblank revision) (unblank repoPath) (unblank cwd)"
| "blank_to_omitted (File_track paths repoPath cwd) =
     File_track paths (unblank repoPath) (unblank cwd)"
| "blank_to_omitted (File_untrack paths repoPath cwd) =
     File_untrack paths (unblank repoPath) (unblank cwd)"
| "blank_to_omitted (Squash source destination paths keepEmptied repoPath cwd) =
     Squash (unblank source) (unblank destination) paths keepEmptied (unblank repoPath) (unblank cwd)"
| "blank_to_omitted (Workspace_root repoPath cwd) =
     Workspace_root (unblank repoPath) (unblank cwd)"
| "blank_to_omitted (Operation_abandon operation repoPath cwd) =
     Operation_abandon operation (unblank repoPath) (unblank cwd)"
| "blank_to_omitted (Operation_diff from to repoPath cwd context) =
     Operation_diff (unblank from) (unblank to) (unblank repoPath) (unblank cwd) context"
| "blank_to_omitted (Operation_log limit repoPath cwd) =
     Operation_log limit (unblank repoPath) (unblank cwd)"
| "blank_to_omitted (Operation_restore operation repoPath cwd) =
     Operation_restore operation (unblank repoPath) (unblank cwd)"
| "blank_to_omitted (Operation_show operation repoPath cwd) =
     Operation_show (unblank operation) (unblank repoPath) (unblank cwd)"
| "blank_to_omitted (Operation_undo operation repoPath cwd) =
     Operation_undo (unblank operation) (unblank repoPath) (unblank cwd)"
| "blank_to_omitted (Config_get name repoPath cwd) =
     Config_get name (unblank repoPath) (unblank cwd)"
| "blank_to_omitted (Config_list name includeDefaults includeOverridden user repo repoPath cwd) =
     Config_list (unblank name) includeDefaults includeOverridden user repo (unblank repoPath) (unblank cwd)"
| "blank_to_omitted (Config_set name value user repo repoPath cwd) =
     Config_set name value user repo (unblank repoPath) (unblank cwd)"
| "blank_to_omitted (Config_unset name user repo repoPath cwd) =
     Config_unset name user repo (unblank repoPath) (unblank cwd)"
| "blank_to_omitted (Config_path user repo repoPath cwd) =
     Config_path user repo (unblank repoPath) (unblank cwd)"
| "blank_to_omitted (Tag_list names repoPath cwd template) =
     Tag_list names (unblank repoPath) (unblank cwd) (unblank template)"
| "blank_to_omitted (Describe message revisions resetAuthor author repoPath cwd) =
     Describe message (unblank revisions) resetAuthor (unblank author) (unblank repoPath) (unblank cwd)"

section \<open>Auxiliary facts\<close>

subsection \<open>Trimming\<close>

lemma trimStart_decomposition: "s = takeWhile is_white_space s @ trimStart s"
  by (simp add: trimStart_def)

lemma trimEnd_decomposition: "s = trimEnd s @ rev (takeWhile is_white_space (rev s))"
proof -
  have "trimEnd s @ rev (takeWhile is_white_space (rev s)) =
      rev (takeWhile is_white_space (rev s) @ dropWhile is_white_space (rev s))"
    by (simp only: trimEnd_def rev_append)
  also have "\<dots> = s"
    by (simp only: takeWhile_dropWhile_id rev_rev_ident)
  finally show ?thesis
    by simp
qed

lemma trim_decomposition:
  "\<exists>pre post. s = pre @ trim s @ post \<and> list_all is_white_space pre \<and> list_all is_white_space post"
proof -
  let ?pre = "takeWhile is_white_space s"
  let ?post = "rev (takeWhile is_white_space (rev (trimStart s)))"
  have "s = ?pre @ trimStart s"
    by (rule trimStart_decomposition)
  also have "trimStart s = trim s @ ?post"
    unfolding trim_def by (rule trimEnd_decomposition)
  finally have "s = ?pre @ trim s @ ?post" .
  moreover have "list_all is_white_space ?pre"
    by (simp add: list_all_iff) (meson set_takeWhileD)
  moreover have "list_all is_white_space ?post"
    by (simp add: list_all_iff) (meson set_takeWhileD)
  ultimately show ?thesis
    by blast
qed

lemma trimStart_hd: "trimStart s \<noteq> [] \<Longrightarrow> \<not> is_white_space (hd (trimStart s))"
  unfolding trimStart_def by (rule hd_dropWhile)

lemma trimEnd_last: "trimEnd s \<noteq> [] \<Longrightarrow> \<not> is_white_space (last (trimEnd s))"
  unfolding trimEnd_def by (simp add: last_rev hd_dropWhile)

lemma trimEnd_hd: "trimEnd s \<noteq> [] \<Longrightarrow> hd (trimEnd s) = hd s"
  by (metis hd_append2 trimEnd_decomposition)

lemma trim_ends:
  assumes "trim s \<noteq> []"
  shows "\<not> is_white_space (hd (trim s)) \<and> \<not> is_white_space (last (trim s))"
proof
  from assms have "trimStart s \<noteq> []"
    by (auto simp: trim_def trimEnd_def)
  then have "\<not> is_white_space (hd (trimStart s))"
    by (rule trimStart_hd)
  moreover from assms have "hd (trim s) = hd (trimStart s)"
    unfolding trim_def by (rule trimEnd_hd)
  ultimately show "\<not> is_white_space (hd (trim s))"
    by simp
  from assms show "\<not> is_white_space (last (trim s))"
    unfolding trim_def by (rule trimEnd_last)
qed

lemma trimStart_empty_iff: "trimStart s = [] \<longleftrightarrow> list_all is_white_space s"
  by (simp add: trimStart_def dropWhile_eq_Nil_conv list_all_iff)

lemma trimEnd_empty_iff: "trimEnd s = [] \<longleftrightarrow> list_all is_white_space s"
  by (simp add: trimEnd_def dropWhile_eq_Nil_conv list_all_iff)

lemma trim_empty_iff: "trim s = [] \<longleftrightarrow> list_all is_white_space s"
proof
  assume "trim s = []"
  then have all: "list_all is_white_space (trimStart s)"
    by (simp add: trim_def trimEnd_empty_iff)
  have "trimStart s = []"
  proof (rule ccontr)
    assume nonempty: "trimStart s \<noteq> []"
    then have "\<not> is_white_space (hd (trimStart s))"
      by (rule trimStart_hd)
    moreover from nonempty all have "is_white_space (hd (trimStart s))"
      by (simp add: list_all_iff)
    ultimately show False
      by contradiction
  qed
  then show "list_all is_white_space s"
    by (simp add: trimStart_empty_iff)
next
  assume "list_all is_white_space s"
  then have "trimStart s = []"
    by (simp add: trimStart_empty_iff)
  then show "trim s = []"
    by (simp add: trim_def trimEnd_def)
qed

subsection \<open>Printing numbers\<close>

lemma digits_not_empty: "digits n \<noteq> []"
  by (subst digits.simps) simp

lemma exponential_not_empty: "exponential ds n \<noteq> []"
  by (simp add: exponential_def Let_def)

lemma number_string_not_empty: "number_string x \<noteq> []"
  by (simp add: number_string_def digits_not_empty exponential_not_empty
      split: option.split prod.split)

lemma toString_digit: "0 \<le> k \<Longrightarrow> k < 10 \<Longrightarrow> toString k = [''0123456789'' ! nat k]"
  by (simp add: toString_def number_string_def digits.simps)

lemma toString_not_empty: "toString k \<noteq> []"
  by (simp add: toString_def number_string_not_empty)

text \<open>
  Two numbers beyond the safe integers, \<open>2\<^sup>6\<^sup>5\<close> and \<open>10\<^sup>2\<^sup>1\<close>, as \<^verbatim>\<open>toString\<close> prints
  them.
\<close>

lemma digits_examples:
  "digits (Suc 0) = ''1''"
  "digits 21 = ''21''"
  "digits 36893488147419103 = ''36893488147419103''"
  "length (digits 36893488147419103232) = 20"
  "length (digits 1000000000000000000000) = 22"
  by (simp_all add: digits.simps)

lemma candidates_two_to_65:
  "candidate 36893488147419103232 (Suc 0) = None"
  "candidate 36893488147419103232 2 = None"
  "candidate 36893488147419103232 3 = None"
  "candidate 36893488147419103232 4 = None"
  "candidate 36893488147419103232 5 = None"
  "candidate 36893488147419103232 6 = None"
  "candidate 36893488147419103232 7 = None"
  "candidate 36893488147419103232 8 = None"
  "candidate 36893488147419103232 9 = None"
  "candidate 36893488147419103232 10 = None"
  "candidate 36893488147419103232 11 = None"
  "candidate 36893488147419103232 12 = None"
  "candidate 36893488147419103232 13 = None"
  "candidate 36893488147419103232 14 = None"
  "candidate 36893488147419103232 15 = None"
  "candidate 36893488147419103232 16 = None"
  "candidate 36893488147419103232 17 = Some (36893488147419103, 3)"
  by (simp_all add: candidate_def digits_examples number_value_def Let_def width.simps)

lemma upt_examples:
  "[1..<Suc 20] = [Suc 0, 2, 3, 4, 5, 6, 7, 8, 9, 10, 11, 12, 13, 14, 15, 16, 17, 18, 19, 20]"
  "[1..<Suc 22] = [Suc 0, 2, 3, 4, 5, 6, 7, 8, 9, 10, 11, 12, 13, 14, 15, 16, 17, 18, 19, 20, 21, 22]"
  by (simp_all add: upt_conv_Cons)

lemma shortest_two_to_65: "shortest 36893488147419103232 = Some (36893488147419103, 3)"
  unfolding shortest_def digits_examples upt_examples
  by (simp add: List.map_filter_simps candidates_two_to_65)

lemma toString_two_to_65: "toString 36893488147419103232 = ''36893488147419103000''"
  by (simp add: toString_def number_string_def shortest_two_to_65 digits_examples numeral_3_eq_3)

lemma candidate_ten_to_21: "candidate 1000000000000000000000 (Suc 0) = Some (1, 21)"
  by (simp add: candidate_def digits_examples number_value_def Let_def width.simps)

lemma shortest_ten_to_21: "shortest 1000000000000000000000 = Some (1, 21)"
  unfolding shortest_def digits_examples upt_examples
  by (simp add: List.map_filter_simps candidate_ten_to_21)

lemma toString_ten_to_21: "toString 1000000000000000000000 = ''1e+21''"
  by (simp add: toString_def number_string_def shortest_ten_to_21 exponential_def digits_examples)

subsection \<open>Text beyond the buffer limit\<close>

lemma maxBuffer_positive: "0 < maxBuffer"
  by (simp add: maxBuffer_def)

lemma trim_replicate:
  assumes "\<not> is_white_space c"
  shows "trim (replicate n c) = replicate n c"
  using assms by (simp add: trim_def trimEnd_def trimStart_def dropWhile_replicate)

lemma long_text_not_white_space: "\<not> is_white_space (CHR ''x'')"
  by (simp add: is_white_space_def)

lemma long_text_unfold: "long_text = CHR ''x'' # replicate maxBuffer (CHR ''x'')"
  by (simp only: long_text_def replicate_Suc)

lemma trim_long_text: "trim long_text = CHR ''x'' # replicate maxBuffer (CHR ''x'')"
proof -
  have "trim long_text = long_text"
    unfolding long_text_def by (rule trim_replicate) (rule long_text_not_white_space)
  also have "\<dots> = CHR ''x'' # replicate maxBuffer (CHR ''x'')"
    by (rule long_text_unfold)
  finally show ?thesis .
qed

lemma take_long_text: "take maxBuffer long_text = replicate maxBuffer (CHR ''x'')"
proof -
  have "min maxBuffer (Suc maxBuffer) = maxBuffer"
    by (rule min_absorb1) (rule le_SucI, rule order_refl)
  then show ?thesis
    by (simp only: long_text_def take_replicate)
qed

subsection \<open>The layout describes the handlers\<close>

lemma build_args_layout: "build_args call = subcommand call @ concat (map tokens (pieces call))"
  by (cases call) (simp_all add: subcommand_def pieces_def)

lemma build_args_split:
  assumes "i < length (pieces call)"
  shows "build_args call = tokens_before call i @ tokens (pieces call ! i) @ tokens_after call i"
proof -
  from assms have "pieces call = take i (pieces call) @ pieces call ! i # drop (Suc i) (pieces call)"
    by (rule id_take_nth_drop)
  then have "map tokens (pieces call) =
      map tokens (take i (pieces call)) @ tokens (pieces call ! i) # map tokens (drop (Suc i) (pieces call))"
    by (metis list.simps(9) map_append)
  then show ?thesis
    by (simp add: build_args_layout tokens_before_def tokens_after_def)
qed

lemma subcommand_omit_optionals: "subcommand (omit_optionals call) = subcommand call"
  by (cases call) (simp_all add: subcommand_def)

lemma valid_truthy_number:
  assumes "valid call" and "Optional_nonzero_number flag (Some k) \<in> set (pieces call)"
  shows "k \<noteq> 0"
  using assms by (cases call) (auto simp: pieces_def positive_def)

lemma flag_not_empty:
  assumes "p \<in> set (pieces call)"
  shows "p \<noteq> Optional_flag [] x \<and> p \<noteq> Optional_switch [] b \<and> p \<noteq> Optional_number [] n
    \<and> p \<noteq> Optional_nonzero_number [] n \<and> p \<noteq> Optional_array_flag [] a"
  using assms by (cases call) (auto simp: pieces_def)

section \<open>The subprocess invoker: claims C1 to C3\<close>

text \<open>
  Claim C1, as the code has it. For every argument list and working directory,
  \<^verbatim>\<open>runJJCommand\<close> raises nothing: it returns a text. When \<^verbatim>\<open>execFileAsync\<close> fails, in
  whatever way (it rejects, or throws before a child exists), the text is \<^verbatim>\<open>Error: \<close>
  followed by a diagnostic. When the error carries a standard error with a character
  that is not white space, the diagnostic is that standard error trimmed, and is not
  empty. When the error carries no standard error or an empty one, as when the child
  could not be spawned, the diagnostic is the error's message, the description given by
  the operating system.
\<close>

theorem runJJCommand_returns_text:
  "(\<exists>result. runJJCommand execFileAsync args cwd = Inr result) \<and>
   (\<forall>error. execFileAsync JJ_COMMAND args cwd = Inl error \<longrightarrow>
      (\<exists>diagnostic.
         runJJCommand execFileAsync args cwd = Inr (''Error: '' @ diagnostic) \<and>
         (\<forall>s. error_stderr error = Some s \<and> \<not> list_all is_white_space s \<longrightarrow>
            diagnostic = trim s \<and> diagnostic \<noteq> []) \<and>
         (error_stderr error = None \<or> error_stderr error = Some [] \<longrightarrow>
            diagnostic = error_message error)))"
proof (cases "execFileAsync JJ_COMMAND args cwd")
  case (Inr out)
  then show ?thesis
    by (simp add: runJJCommand_def try_catch_def)
next
  case (Inl error)
  show ?thesis
  proof (cases "truthy_string (error_stderr error)")
    case None
    with Inl have "runJJCommand execFileAsync args cwd = Inr (''Error: '' @ error_message error)"
      by (simp add: runJJCommand_def try_catch_def)
    moreover from None have "error_stderr error = None \<or> error_stderr error = Some []"
      by (simp add: truthy_string_def split: option.splits if_splits)
    ultimately show ?thesis
      using Inl by auto
  next
    case (Some s)
    with Inl have "runJJCommand execFileAsync args cwd = Inr (''Error: '' @ trim s)"
      by (simp add: runJJCommand_def try_catch_def)
    moreover from Some have "error_stderr error = Some s \<and> s \<noteq> []"
      by (simp add: truthy_string_def split: option.splits if_splits)
    ultimately show ?thesis
      using Inl by (auto simp: trim_empty_iff)
  qed
qed

theorem runJJCommand_returns_text_witness:
  "runJJCommand exec_cannot_spawn [''status''] None = Inr ''Error: spawn jj ENOENT''"
  using runJJCommand_returns_text [of exec_cannot_spawn "[''status'']" None]
  by (auto simp: exec_cannot_spawn_def)

text \<open>
  Claim C1 as stated asks for a non-empty diagnostic in every failure. A child that
  exits with a non-zero status after writing a single line break to its standard error
  gives \<^verbatim>\<open>Error: \<close> with nothing after it: the standard error is truthy, so the message
  is not used, and trimming leaves the empty string.
\<close>

theorem runJJCommand_empty_diagnostic:
  "runJJCommand exec_fails_blank [''status''] None = Inr ''Error: ''"
  by (simp add: runJJCommand_def try_catch_def exec_fails_blank_def truthy_string_def
      trim_def trimEnd_def trimStart_def is_white_space_def)

text \<open>
  Claim C2, as the code has it. When the promise of \<^verbatim>\<open>execFileAsync\<close> resolves, that
  is, when the subprocess exits with status zero and its output stays within the buffer
  limit of \<^verbatim>\<open>execFile\<close>, \<^verbatim>\<open>runJJCommand\<close> returns the standard output trimmed: the
  standard output is the result with white space only before it and white space only
  after it, and the result, unless empty, neither starts nor ends with white space. So
  the result is the standard output from its first to its last character that is not
  white space, with everything between them as it was.
\<close>

theorem runJJCommand_success:
  assumes "execFileAsync JJ_COMMAND args cwd = Inr output"
  shows "runJJCommand execFileAsync args cwd = Inr (trim (stdout output)) \<and>
    (\<exists>pre post. stdout output = pre @ trim (stdout output) @ post \<and>
       list_all is_white_space pre \<and> list_all is_white_space post) \<and>
    (trim (stdout output) \<noteq> [] \<longrightarrow>
       \<not> is_white_space (hd (trim (stdout output))) \<and>
       \<not> is_white_space (last (trim (stdout output))))"
proof -
  from assms have "runJJCommand execFileAsync args cwd = Inr (trim (stdout output))"
    by (simp add: runJJCommand_def try_catch_def)
  then show ?thesis
    using trim_decomposition trim_ends by blast
qed

theorem runJJCommand_success_witness:
  "exec_succeeds JJ_COMMAND [''status''] None =
     Inr \<lparr>stdout = ''\<newline>Working copy  (@) : abc  (empty)\<newline>\<newline>'', output_stderr = []\<rparr> \<and>
   runJJCommand exec_succeeds [''status''] None = Inr ''Working copy  (@) : abc  (empty)''"
proof -
  have "exec_succeeds JJ_COMMAND [''status''] None =
      Inr \<lparr>stdout = ''\<newline>Working copy  (@) : abc  (empty)\<newline>\<newline>'', output_stderr = []\<rparr>"
    by (simp add: exec_succeeds_def)
  with runJJCommand_success [of exec_succeeds "[''status'']" None] show ?thesis
    by (simp add: trim_def trimEnd_def trimStart_def is_white_space_def)
qed

text \<open>
  Claim C2 as stated speaks of every subprocess that exits with status zero. The call at
  line 22 of \<^verbatim>\<open>index.ts\<close> sets no \<^verbatim>\<open>maxBuffer\<close>, so a subprocess that exits with status
  zero after printing more than 1 MiB has its promise rejected, and \<^verbatim>\<open>runJJCommand\<close>
  returns an error text, not the trimmed standard output.
\<close>

theorem runJJCommand_exceeds_stdout:
  "runJJCommand exec_exceeds_stdout [''log''] None = Inr ''Error: stdout maxBuffer length exceeded'' \<and>
   runJJCommand exec_exceeds_stdout [''log''] None \<noteq> Inr (trim long_text)"
proof -
  have "runJJCommand exec_exceeds_stdout [''log''] None = Inr ''Error: stdout maxBuffer length exceeded''"
    by (simp add: runJJCommand_def try_catch_def exec_exceeds_stdout_def truthy_string_def)
  then show ?thesis
    by (simp add: trim_long_text)
qed

text \<open>
  Claim C3, as the code has it. When the promise rejects, as it does when the subprocess
  exits with a non-zero status, and the error carries a non-empty standard error, which
  is what \<^verbatim>\<open>execFile\<close> captured of the standard error of the subprocess, all of it
  within the buffer limit, \<^verbatim>\<open>runJJCommand\<close> returns \<^verbatim>\<open>Error: \<close> followed by that text
  trimmed: the text is what follows \<^verbatim>\<open>Error: \<close> with white space only before it and white
  space only after it, and what follows \<^verbatim>\<open>Error: \<close>, unless empty, neither starts nor
  ends with white space.
\<close>

theorem runJJCommand_failure:
  assumes "execFileAsync JJ_COMMAND args cwd = Inl error"
    and "error_stderr error = Some s" and "s \<noteq> []"
  shows "runJJCommand execFileAsync args cwd = Inr (''Error: '' @ trim s) \<and>
    (\<exists>pre post. s = pre @ trim s @ post \<and>
       list_all is_white_space pre \<and> list_all is_white_space post) \<and>
    (trim s \<noteq> [] \<longrightarrow> \<not> is_white_space (hd (trim s)) \<and> \<not> is_white_space (last (trim s)))"
proof -
  from assms have "runJJCommand execFileAsync args cwd = Inr (''Error: '' @ trim s)"
    by (simp add: runJJCommand_def try_catch_def truthy_string_def)
  then show ?thesis
    using trim_decomposition trim_ends by blast
qed

theorem runJJCommand_failure_witness:
  "exec_fails JJ_COMMAND [''show'', ''-r'', ''nope''] None =
     Inl \<lparr>error_stderr = Some ''  Error: No such revision\<newline>'',
          error_message = ''Command failed: jj show -r nope\<newline>  Error: No such revision\<newline>''\<rparr> \<and>
   runJJCommand exec_fails [''show'', ''-r'', ''nope''] None = Inr ''Error: Error: No such revision''"
proof -
  have "exec_fails JJ_COMMAND [''show'', ''-r'', ''nope''] None =
      Inl \<lparr>error_stderr = Some ''  Error: No such revision\<newline>'',
           error_message = ''Command failed: jj show -r nope\<newline>  Error: No such revision\<newline>''\<rparr>"
    by (simp add: exec_fails_def)
  with runJJCommand_failure [of exec_fails "[''show'', ''-r'', ''nope'']" None _
      "''  Error: No such revision\<newline>''"]
  show ?thesis
    by (simp add: trim_def trimEnd_def trimStart_def is_white_space_def)
qed

text \<open>
  Claim C3 as stated speaks of the standard error of the subprocess. A subprocess that
  exits with a non-zero status after printing more than 1 MiB on its standard error has
  that text cut at the buffer limit before the code sees it, and \<^verbatim>\<open>runJJCommand\<close> returns
  \<^verbatim>\<open>Error: \<close> followed by the cut text, not by the standard error trimmed.
\<close>

theorem runJJCommand_truncated_stderr:
  "runJJCommand exec_exceeds_stderr [''show''] None = Inr (''Error: '' @ take maxBuffer long_text) \<and>
   runJJCommand exec_exceeds_stderr [''show''] None \<noteq> Inr (''Error: '' @ trim long_text)"
proof -
  have "replicate maxBuffer (CHR ''x'') \<noteq> []"
    using maxBuffer_positive by simp
  then have "runJJCommand exec_exceeds_stderr [''show''] None =
      Inr (''Error: '' @ replicate maxBuffer (CHR ''x''))"
    by (simp add: runJJCommand_def try_catch_def exec_exceeds_stderr_def truthy_string_def
        take_long_text trim_replicate [OF long_text_not_white_space])
  then show ?thesis
    by (simp add: take_long_text trim_long_text)
qed

section \<open>The argument builders: claims C4 to C10\<close>

text \<open>
  Claim C4. For every tool, when every optional parameter is omitted, the argument list
  is the fixed subcommand tokens of the tool followed by the tokens of its required
  parameters, in the order of the handler; each optional parameter contributes no token,
  so no token of the list is the flag of an optional parameter.
\<close>

theorem omitted_optionals_build_args:
  "build_args (omit_optionals call) = subcommand call @ required_args call \<and>
   (\<forall>p \<in> set (pieces (omit_optionals call)). optional p \<longrightarrow> tokens p = [])"
  by (cases call)
    (simp_all add: subcommand_def required_args_def pieces_def
      if_string_def if_boolean_def if_number_def if_array_def if_defined_def
      truthy_string_def truthy_boolean_def truthy_number_def)

theorem omitted_optionals_build_args_witness:
  "build_args (omit_optionals
      (Describe ''fix typo'' (Some ''@-'') (Some True) (Some ''A <a@b.c>'') (Some ''/repo'') None)) =
     [''describe'', ''-m'', ''fix typo''] \<and>
   build_args (omit_optionals (Bookmark_move [''a'', ''b''] ''main'' (Some ''/repo'') (Some ''/tmp''))) =
     [''bookmark'', ''move'', ''a'', ''b'', ''-t'', ''main'']"
  using
    omitted_optionals_build_args
      [of "Describe ''fix typo'' (Some ''@-'') (Some True) (Some ''A <a@b.c>'') (Some ''/repo'') None"]
    omitted_optionals_build_args
      [of "Bookmark_move [''a'', ''b''] ''main'' (Some ''/repo'') (Some ''/tmp'')"]
  by (simp add: subcommand_def required_args_def pieces_def)

text \<open>
  Claim C5, as the code has it. For every tool and every optional parameter that its
  handler pushes, the tokens of the parameter stand in the argument list between the
  tokens of the pushes before it and those of the pushes after it. Omitted, the
  parameter gives no token. Supplied with a non-empty string, it gives its flag and the
  string, or the string alone when the parameter is positional; supplied as \<^verbatim>\<open>true\<close>,
  its flag; supplied with a number that the schema admits, its flag and the number as
  \<^verbatim>\<open>toString\<close> prints it; supplied with an array, its flag and the elements, or the
  elements alone when the array is spliced. For a string, a boolean or a number none of
  these tokens is the empty string.
\<close>

theorem optional_parameter_tokens:
  assumes "valid call" and "i < length (pieces call)" and "pieces call ! i = p"
  shows "build_args call = tokens_before call i @ tokens p @ tokens_after call i \<and>
    (p = Optional_flag flag None \<longrightarrow> tokens p = []) \<and>
    (p = Optional_flag flag (Some v) \<and> v \<noteq> [] \<longrightarrow> tokens p = [flag, v] \<and> flag \<noteq> []) \<and>
    (p = Optional_value None \<longrightarrow> tokens p = []) \<and>
    (p = Optional_value (Some v) \<and> v \<noteq> [] \<longrightarrow> tokens p = [v]) \<and>
    (p = Optional_switch flag None \<longrightarrow> tokens p = []) \<and>
    (p = Optional_switch flag (Some True) \<longrightarrow> tokens p = [flag] \<and> flag \<noteq> []) \<and>
    (p = Optional_number flag None \<longrightarrow> tokens p = []) \<and>
    (p = Optional_number flag (Some k) \<longrightarrow>
       tokens p = [flag, toString k] \<and> flag \<noteq> [] \<and> toString k \<noteq> []) \<and>
    (p = Optional_nonzero_number flag None \<longrightarrow> tokens p = []) \<and>
    (p = Optional_nonzero_number flag (Some k) \<longrightarrow>
       tokens p = [flag, toString k] \<and> flag \<noteq> [] \<and> toString k \<noteq> []) \<and>
    (p = Optional_array_flag flag None \<longrightarrow> tokens p = []) \<and>
    (p = Optional_array_flag flag (Some vs) \<longrightarrow> tokens p = flag # vs \<and> flag \<noteq> []) \<and>
    (p = Optional_array None \<longrightarrow> tokens p = []) \<and>
    (p = Optional_array (Some vs) \<longrightarrow> tokens p = vs)"
proof -
  from assms(2,3) have split: "build_args call = tokens_before call i @ tokens p @ tokens_after call i"
    using build_args_split by blast
  from assms(2,3) have member: "p \<in> set (pieces call)"
    using nth_mem by blast
  then have flags: "p \<noteq> Optional_flag [] x" "p \<noteq> Optional_switch [] b" "p \<noteq> Optional_number [] n"
    "p \<noteq> Optional_nonzero_number [] n" "p \<noteq> Optional_array_flag [] a" for x b n a
    using flag_not_empty by blast+
  from assms(1) member have nonzero: "p = Optional_nonzero_number flag (Some k) \<Longrightarrow> k \<noteq> 0"
    using valid_truthy_number by blast
  have strings: "tokens (Optional_flag flag None) = []"
    "v \<noteq> [] \<Longrightarrow> tokens (Optional_flag flag (Some v)) = [flag, v]"
    "tokens (Optional_value None) = []"
    "v \<noteq> [] \<Longrightarrow> tokens (Optional_value (Some v)) = [v]"
    by (simp_all add: if_string_def truthy_string_def)
  have switches: "tokens (Optional_switch flag None) = []"
    "tokens (Optional_switch flag (Some True)) = [flag]"
    by (simp_all add: if_boolean_def truthy_boolean_def)
  have numbers: "tokens (Optional_number flag None) = []"
    "tokens (Optional_number flag (Some k)) = [flag, toString k]"
    "tokens (Optional_nonzero_number flag None) = []"
    "k \<noteq> 0 \<Longrightarrow> tokens (Optional_nonzero_number flag (Some k)) = [flag, toString k]"
    by (simp_all add: if_defined_def if_number_def truthy_number_def)
  have arrays: "tokens (Optional_array_flag flag None) = []"
    "tokens (Optional_array_flag flag (Some vs)) = flag # vs"
    "tokens (Optional_array None) = []"
    "tokens (Optional_array (Some vs)) = vs"
    by (simp_all add: if_array_def)
  show ?thesis
    using split flags nonzero strings switches numbers arrays toString_not_empty
    by blast
qed

theorem optional_parameter_tokens_witness:
  "valid (Evolog (Some ''@-'') None (Some ''/tmp'') (Some 5) (Some True)) \<and>
   build_args (Evolog (Some ''@-'') None (Some ''/tmp'') (Some 5) (Some True)) =
     [''evolog'', ''-r'', ''@-''] @ [''-n'', ''5''] @ [''-p''] \<and>
   build_args (Evolog (Some ''@-'') None (Some ''/tmp'') None (Some True)) =
     [''evolog'', ''-r'', ''@-''] @ [] @ [''-p'']"
  using
    optional_parameter_tokens
      [of "Evolog (Some ''@-'') None (Some ''/tmp'') (Some 5) (Some True)" 2
        "Optional_nonzero_number ''-n'' (Some 5)" "''-n''" _ 5]
    optional_parameter_tokens
      [of "Evolog (Some ''@-'') None (Some ''/tmp'') None (Some True)" 2
        "Optional_nonzero_number ''-n'' None" "''-n''"]
  by (simp add: pieces_def subcommand_def tokens_before_def tokens_after_def positive_def
      toString_digit if_string_def if_boolean_def truthy_string_def truthy_boolean_def)

text \<open>
  Claim C5 as stated fails where a parameter is supplied with a falsy value: the
  \<^verbatim>\<open>show\<close> tool given \<^verbatim>\<open>revision = ""\<close> builds no \<^verbatim>\<open>-r\<close> token.
\<close>

theorem supplied_parameter_without_flag:
  "build_args (Show (Some '''') None None None) = [''show'']"
  by (simp add: if_string_def if_defined_def truthy_string_def)

text \<open>
  Claim C6. For every tool and every array-valued parameter of it, an array supplied
  for the parameter appears in the argument list element by element, in its order,
  between the tokens of the pushes before and after it: as it is for the tools that
  splice the array, and after one flag token for the tools that share a flag.
\<close>

theorem array_parameter_tokens:
  assumes "i < length (pieces call)"
  shows
    "(pieces call ! i = Required_array vs \<or> pieces call ! i = Optional_array (Some vs) \<longrightarrow>
        build_args call = tokens_before call i @ vs @ tokens_after call i) \<and>
     (pieces call ! i = Optional_array_flag flag (Some vs) \<longrightarrow>
        build_args call = tokens_before call i @ [flag] @ vs @ tokens_after call i)"
  using build_args_split [OF assms] by (auto simp: if_array_def)

theorem array_parameter_tokens_witness:
  "build_args (Bookmark_delete [''a'', ''b'', ''c''] None None) =
     [''bookmark'', ''delete''] @ [''a'', ''b'', ''c''] @ [] \<and>
   build_args (Git_fetch (Some ''origin'') None None (Some [''main'', ''dev''])) =
     [''git'', ''fetch'', ''--remote'', ''origin''] @ [''--branch''] @ [''main'', ''dev''] @ []"
  using
    array_parameter_tokens [of 0 "Bookmark_delete [''a'', ''b'', ''c''] None None" "[''a'', ''b'', ''c'']"]
    array_parameter_tokens
      [of 2 "Git_fetch (Some ''origin'') None None (Some [''main'', ''dev''])" _ "''--branch''"]
  by (simp add: pieces_def subcommand_def tokens_before_def tokens_after_def
      if_string_def truthy_string_def)

text \<open>
  Claim C7. The \<^verbatim>\<open>rebase\<close> tool given \<^verbatim>\<open>source = "@-"\<close> and \<^verbatim>\<open>destination = "main"\<close>,
  with \<^verbatim>\<open>repoPath\<close> and \<^verbatim>\<open>cwd\<close> omitted.
\<close>

theorem rebase_example:
  "build_args (Rebase ''@-'' ''main'' None None) =
     [''rebase'', ''--source'', ''@-'', ''--destination'', ''main'']"
  by (simp add: if_string_def truthy_string_def)

text \<open>
  Claim C8. The \<^verbatim>\<open>bookmark-create\<close> tool given \<^verbatim>\<open>name = "feature-x"\<close> and nothing else.
\<close>

theorem bookmark_create_example:
  "build_args (Bookmark_create ''feature-x'' None None None) = [''bookmark'', ''create'', ''feature-x''] \<and>
   ''-r'' \<notin> set (build_args (Bookmark_create ''feature-x'' None None None))"
  by (simp add: if_string_def truthy_string_def)

text \<open>
  Claim C9. For every tool, an optional string parameter supplied as the empty string
  is treated as an omitted one: the argument list is the one built when each such
  parameter is omitted instead, and neither a flag with its value nor a positional token
  is pushed for it.
\<close>

theorem empty_string_as_omitted:
  "build_args (blank_to_omitted call) = build_args call \<and>
   tokens (Optional_flag flag (Some '''')) = [] \<and>
   tokens (Optional_value (Some '''')) = []"
proof -
  have "if_string (unblank x) push = if_string x push" for x push
    by (simp add: unblank_def if_string_def truthy_string_def)
  then have "build_args (blank_to_omitted call) = build_args call"
    by (cases call) simp_all
  then show ?thesis
    by (simp add: if_string_def truthy_string_def)
qed

theorem empty_string_as_omitted_witness:
  "build_args (Status (Some '''') None) = [''status''] \<and>
   build_args (Diff (Some '''') None None None None None) = [''diff''] \<and>
   build_args (Bookmark_create ''feature-x'' (Some '''') None None) =
     [''bookmark'', ''create'', ''feature-x'']"
  using
    empty_string_as_omitted [of "Status (Some '''') None"]
    empty_string_as_omitted [of "Diff (Some '''') None None None None None"]
    empty_string_as_omitted [of "Bookmark_create ''feature-x'' (Some '''') None None"]
  by (simp add: unblank_def if_string_def if_defined_def if_boolean_def
      truthy_string_def truthy_boolean_def)

text \<open>
  Claim C10. The \<^verbatim>\<open>git-fetch\<close> tool given \<^verbatim>\<open>branches = []\<close> and the \<^verbatim>\<open>git-push\<close> tool
  given \<^verbatim>\<open>bookmarks = []\<close> push the shared flag with no value after it: compared with
  the call that omits the array, the argument list has the one token \<^verbatim>\<open>--branch\<close>,
  respectively \<^verbatim>\<open>--bookmark\<close>, more, at the place of the parameter, and what follows it are
  the tokens of the later parameters.
\<close>

theorem empty_array_dangling_flag:
  "build_args (Git_fetch remote repoPath cwd (Some [])) =
     build_args (Git_fetch remote repoPath cwd None) @ [''--branch''] \<and>
   build_args (Git_push remote None all tracked deleted allowNew repoPath cwd) =
     tokens_before (Git_push remote None all tracked deleted allowNew repoPath cwd) 1 @
     tokens_after (Git_push remote None all tracked deleted allowNew repoPath cwd) 1 \<and>
   build_args (Git_push remote (Some []) all tracked deleted allowNew repoPath cwd) =
     tokens_before (Git_push remote None all tracked deleted allowNew repoPath cwd) 1 @
     [''--bookmark''] @
     tokens_after (Git_push remote None all tracked deleted allowNew repoPath cwd) 1 \<and>
   build_args (Git_fetch None None None (Some [])) = [''git'', ''fetch'', ''--branch''] \<and>
   build_args (Git_push None (Some []) None None None None None None) = [''git'', ''push'', ''--bookmark'']"
  by (simp add: pieces_def subcommand_def tokens_before_def tokens_after_def
      if_array_def if_string_def if_boolean_def truthy_string_def truthy_boolean_def)

end
